theory Spec2Isabelle
  imports Complex_Main
begin

section \<open>Numbers and vectors\<close>

text \<open>
  A JavaScript \<open>number\<close> is modelled as a \<^typ>\<open>real\<close>: arithmetic is exact, there is no
  rounding, no NaN and no infinity. \<open>THREE.Vector3\<close> and \<open>THREE.Euler\<close> are triples of
  numbers; only the operations the controllers call are defined.
\<close>

record vec3 =
  vx :: real
  vy :: real
  vz :: real

definition vec :: "real \<Rightarrow> real \<Rightarrow> real \<Rightarrow> vec3" where
  "vec a b c = \<lparr>vx = a, vy = b, vz = c\<rparr>"

definition vadd :: "vec3 \<Rightarrow> vec3 \<Rightarrow> vec3" where
  "vadd a b = vec (vx a + vx b) (vy a + vy b) (vz a + vz b)"

definition multiplyScalar :: "vec3 \<Rightarrow> real \<Rightarrow> vec3" where
  "multiplyScalar a k = vec (vx a * k) (vy a * k) (vz a * k)"

definition vlength :: "vec3 \<Rightarrow> real" where
  "vlength a = sqrt (vx a * vx a + vy a * vy a + vz a * vz a)"

text \<open>\<open>Vector3.normalize\<close> divides by \<open>length() || 1\<close>.\<close>

definition normalize :: "vec3 \<Rightarrow> vec3" where
  "normalize a = (let l = vlength a; d = (if l = 0 then 1 else l)
                  in vec (vx a / d) (vy a / d) (vz a / d))"

definition distanceTo :: "vec3 \<Rightarrow> vec3 \<Rightarrow> real" where
  "distanceTo a b =
     sqrt ((vx a - vx b) * (vx a - vx b) + (vy a - vy b) * (vy a - vy b)
           + (vz a - vz b) * (vz a - vz b))"

definition lerpScalar :: "real \<Rightarrow> real \<Rightarrow> real \<Rightarrow> real" where
  "lerpScalar a b t = a + (b - a) * t"

definition lerp :: "vec3 \<Rightarrow> vec3 \<Rightarrow> real \<Rightarrow> vec3" where
  "lerp a b t = vec (lerpScalar (vx a) (vx b) t) (lerpScalar (vy a) (vy b) t)
                    (lerpScalar (vz a) (vz b) t)"

definition setScalar :: "real \<Rightarrow> vec3" where
  "setScalar k = vec k k k"

text \<open>\<open>Array.prototype.indexOf\<close> (\<open>-1\<close> when absent) and indexing (\<open>undefined\<close>, here
  \<open>None\<close>, out of range).\<close>

fun indexOfFrom :: "int \<Rightarrow> 'a list \<Rightarrow> 'a \<Rightarrow> int" where
  "indexOfFrom i [] a = -1"
| "indexOfFrom i (x # xs) a = (if x = a then i else indexOfFrom (i + 1) xs a)"

definition indexOf :: "'a list \<Rightarrow> 'a \<Rightarrow> int" where
  "indexOf xs a = indexOfFrom 0 xs a"

definition elemAt :: "'a list \<Rightarrow> int \<Rightarrow> 'a option" where
  "elemAt xs i = (if 0 \<le> i \<and> i < int (length xs) then Some (xs ! nat i) else None)"

text \<open>The remainder operator \<open>%\<close> of JavaScript truncates towards zero.\<close>

definition jsRem :: "int \<Rightarrow> int \<Rightarrow> int" where
  "jsRem a b = (if a < 0 then - ((- a) mod \<bar>b\<bar>) else a mod \<bar>b\<bar>)"

section \<open>The part hierarchy (mechConfig)\<close>

datatype PartId =
    Head | neck | mainbody | Leftarm | Rightarm | Leftleg | Rightleg
  | Leftupperarm | Leftdownarm | Lefthand
  | Rightupperarm | Rightdownarm | Righthand
  | Leftupperleg | Leftdownleg | Leftfeet
  | Rightupperleg | Rightdownleg | Rightfeet

definition majorParts :: "PartId list" where
  "majorParts = [Head, neck, mainbody, Leftarm, Rightarm, Leftleg, Rightleg]"

fun childrenMap :: "PartId \<Rightarrow> PartId list option" where
  "childrenMap Leftarm = Some [Leftupperarm, Leftdownarm, Lefthand]"
| "childrenMap Rightarm = Some [Rightupperarm, Rightdownarm, Righthand]"
| "childrenMap Leftleg = Some [Leftupperleg, Leftdownleg, Leftfeet]"
| "childrenMap Rightleg = Some [Rightupperleg, Rightdownleg, Rightfeet]"
| "childrenMap _ = None"

definition getChildParts :: "PartId \<Rightarrow> PartId list" where
  "getChildParts partId = (case childrenMap partId of Some cs \<Rightarrow> cs | None \<Rightarrow> [])"

definition isMajorPart :: "PartId \<Rightarrow> bool" where
  "isMajorPart partId = (partId \<in> set majorParts)"

record ExplodeOffset =
  direction :: vec3
  distance :: real

fun EXPLODE_OFFSETS :: "PartId \<Rightarrow> ExplodeOffset" where
  "EXPLODE_OFFSETS Head = \<lparr>direction = vec 0 0.8 0.4, distance = 0.5\<rparr>"
| "EXPLODE_OFFSETS neck = \<lparr>direction = vec 0 0.5 0.3, distance = 0.3\<rparr>"
| "EXPLODE_OFFSETS mainbody = \<lparr>direction = vec 0 0.1 0.5, distance = 0.2\<rparr>"
| "EXPLODE_OFFSETS Leftarm = \<lparr>direction = vec 1 0.2 0.3, distance = 0.6\<rparr>"
| "EXPLODE_OFFSETS Rightarm = \<lparr>direction = vec (-1) 0.2 0.3, distance = 0.6\<rparr>"
| "EXPLODE_OFFSETS Leftleg = \<lparr>direction = vec 0.15 (-0.65) 0.2, distance = 0.55\<rparr>"
| "EXPLODE_OFFSETS Rightleg = \<lparr>direction = vec (-0.15) (-0.65) 0.2, distance = 0.55\<rparr>"
| "EXPLODE_OFFSETS Leftupperarm = \<lparr>direction = vec 0.5 0.2 0.4, distance = 0.25\<rparr>"
| "EXPLODE_OFFSETS Leftdownarm = \<lparr>direction = vec 0.4 0.1 0.5, distance = 0.3\<rparr>"
| "EXPLODE_OFFSETS Lefthand = \<lparr>direction = vec 0.3 0 0.6, distance = 0.35\<rparr>"
| "EXPLODE_OFFSETS Rightupperarm = \<lparr>direction = vec (-0.5) 0.2 0.4, distance = 0.25\<rparr>"
| "EXPLODE_OFFSETS Rightdownarm = \<lparr>direction = vec (-0.4) 0.1 0.5, distance = 0.3\<rparr>"
| "EXPLODE_OFFSETS Righthand = \<lparr>direction = vec (-0.3) 0 0.6, distance = 0.35\<rparr>"
| "EXPLODE_OFFSETS Leftupperleg = \<lparr>direction = vec 0.3 0 0.4, distance = 0.25\<rparr>"
| "EXPLODE_OFFSETS Leftdownleg = \<lparr>direction = vec 0.2 (-0.1) 0.5, distance = 0.3\<rparr>"
| "EXPLODE_OFFSETS Leftfeet = \<lparr>direction = vec 0.1 (-0.2) 0.5, distance = 0.35\<rparr>"
| "EXPLODE_OFFSETS Rightupperleg = \<lparr>direction = vec (-0.3) 0 0.4, distance = 0.25\<rparr>"
| "EXPLODE_OFFSETS Rightdownleg = \<lparr>direction = vec (-0.2) (-0.1) 0.5, distance = 0.3\<rparr>"
| "EXPLODE_OFFSETS Rightfeet = \<lparr>direction = vec (-0.1) (-0.2) 0.5, distance = 0.35\<rparr>"

section \<open>The loaded model (loadMech)\<close>

text \<open>
  A scene node carries its local transform. A \<open>PartConfig\<close> binds a part id to its node and
  to the rest position captured at load time; the fields of \<open>PartConfig\<close> and \<open>MechModel\<close>
  that the controllers below never read are left out.
\<close>

record Object3D =
  position :: vec3
  rotation :: vec3
  scale :: vec3

record PartConfig =
  node :: "Object3D option"
  originalPosition :: "vec3 option"

record MechModel =
  parts :: "PartId \<Rightarrow> PartConfig option"

section \<open>SimpleStateMachine\<close>

text \<open>
  The controller object as a record: the fields of \<open>uiState\<close> (\<open>state\<close> to \<open>partList\<close>) stand
  beside the private fields. \<open>null\<close> and \<open>undefined\<close> are \<open>None\<close>. Callbacks, the ring
  decoration meshes and their animation are observers of this state and are not part of it;
  of the decoration only the two plain fields \<open>ringDecorationVisible\<close> and
  \<open>selectedSubRingIndex\<close> are kept.
\<close>

datatype SimpleViewState = Assembled | Exploded | PartView

record SimpleStateMachine =
  model :: "MechModel option"
  state :: SimpleViewState
  globalExplosion :: real
  partExplosion :: real
  hoveredPart :: "PartId option"
  selectedMajorPart :: "PartId option"
  currentPartIndex :: int
  partList :: "PartId list"
  globalExplosionTarget :: real
  partExplosionTarget :: real
  transitionTargets :: "PartId \<Rightarrow> vec3 option"
  transitionScales :: "PartId \<Rightarrow> real option"
  isTransitioning :: bool
  ringDecorationVisible :: bool
  selectedSubRingIndex :: int

definition mainRingCenter :: vec3 where
  "mainRingCenter = vec 0 0.1 2.0"

definition subRingDistance :: real where
  "subRingDistance = 4.0"

definition subRingZ :: real where
  "subRingZ = -2"

definition transitionSpeed :: real where
  "transitionSpeed = 0.08"

fun partPositionInMainRing :: "PartId \<Rightarrow> vec3 option" where
  "partPositionInMainRing Head = Some (vec (-0.1) (-1.4) (-1))"
| "partPositionInMainRing neck = Some (vec (-0.2) (-1.4) (-1))"
| "partPositionInMainRing mainbody = Some (vec (-0.1) (-1) (-1))"
| "partPositionInMainRing Leftarm = Some (vec (-0.2) (-0.1) (-1))"
| "partPositionInMainRing Rightarm = Some (vec 0.1 (-0.1) (-1))"
| "partPositionInMainRing Leftleg = Some (vec 0 0.1 (-1))"
| "partPositionInMainRing Rightleg = Some (vec 0 0.1 (-1))"
| "partPositionInMainRing _ = None"

fun partPositionInSubRing :: "PartId \<Rightarrow> vec3 option" where
  "partPositionInSubRing Head = Some (vec (-0.05) 1.2 1.3)"
| "partPositionInSubRing neck = Some (vec (-1.8) 0.35 1.3)"
| "partPositionInSubRing mainbody = Some (vec (-2.25) (-1.55) 1.3)"
| "partPositionInSubRing Leftarm = Some (vec (-1) (-2.2) 1.3)"
| "partPositionInSubRing Rightarm = Some (vec 1 (-2.2) 1.3)"
| "partPositionInSubRing Leftleg = Some (vec 2.1 (-0.5) 1.3)"
| "partPositionInSubRing Rightleg = Some (vec 1.8 1.5 1.3)"
| "partPositionInSubRing _ = None"

text \<open>\<open>initSubRingPositions\<close>: the loop \<open>for (i = 0; i < 7; i++)\<close> pushes one position per
  index.\<close>

definition subRingPosition :: "nat \<Rightarrow> vec3" where
  "subRingPosition i =
     (let count = 7;
          angleStep = (pi * 2) / count;
          startAngle = - pi / 2;
          angle = startAngle + angleStep * real i
      in vec (cos angle * subRingDistance) (sin angle * subRingDistance) subRingZ)"

definition subRingFixedPositions :: "vec3 list" where
  "subRingFixedPositions = map subRingPosition [0..<7]"

text \<open>The state after the constructor.\<close>

definition createSimpleStateMachine :: SimpleStateMachine where
  "createSimpleStateMachine =
     \<lparr>model = None, state = Assembled, globalExplosion = 0, partExplosion = 0,
      hoveredPart = None, selectedMajorPart = None, currentPartIndex = 0,
      partList = majorParts, globalExplosionTarget = 0, partExplosionTarget = 0,
      transitionTargets = (\<lambda>_. None), transitionScales = (\<lambda>_. None),
      isTransitioning = False, ringDecorationVisible = False, selectedSubRingIndex = -1\<rparr>"

definition init :: "MechModel \<Rightarrow> SimpleStateMachine \<Rightarrow> SimpleStateMachine" where
  "init m s = s\<lparr>model := Some m\<rparr>"

subsection \<open>Ring layout\<close>

text \<open>
  \<open>calculateTransitionTargets\<close> is also reached with \<open>undefined\<close> for the selected part (from
  \<open>partList[index]\<close> in \<open>navigateInternal\<close>), so the argument is an option. The entry the
  source would then store under the key \<open>undefined\<close> is never read (every read is by part
  id) and is not represented. \<open>assignSubRing\<close> is one iteration of the
  \<open>forEach((partId, fixedIndex) => ...)\<close>.
\<close>

definition assignSubRing ::
  "PartId option \<Rightarrow> PartId \<times> nat \<Rightarrow> SimpleStateMachine \<Rightarrow> SimpleStateMachine" where
  "assignSubRing selectedPart entry s =
     (let partId = fst entry; fixedIndex = snd entry in
      if Some partId = selectedPart then s
      else case elemAt subRingFixedPositions (int fixedIndex) of
             None \<Rightarrow> s
           | Some ringPos \<Rightarrow>
               let subOffset = (case partPositionInSubRing partId of
                                  Some off \<Rightarrow> off | None \<Rightarrow> vec 0 0 0);
                   targetPos = vec (vx ringPos + vx subOffset) (vy ringPos + vy subOffset)
                                   (vz ringPos + vz subOffset)
               in s\<lparr>transitionTargets := (transitionTargets s)(partId \<mapsto> targetPos),
                     transitionScales := (transitionScales s)(partId \<mapsto> 0.7)\<rparr>)"

definition updateSubRingVisibility :: "int \<Rightarrow> SimpleStateMachine \<Rightarrow> SimpleStateMachine" where
  "updateSubRingVisibility selectedIndex s = s\<lparr>selectedSubRingIndex := selectedIndex\<rparr>"

definition indexOfMajor :: "PartId option \<Rightarrow> int" where
  "indexOfMajor partId = (case partId of Some p \<Rightarrow> indexOf majorParts p | None \<Rightarrow> -1)"

definition calculateTransitionTargets ::
  "PartId option \<Rightarrow> SimpleStateMachine \<Rightarrow> SimpleStateMachine" where
  "calculateTransitionTargets selectedPart s =
     (let mainOffset = (case Option.bind selectedPart partPositionInMainRing of
                          Some off \<Rightarrow> off | None \<Rightarrow> vec 0 0 0);
          selectedTarget = vec (vx mainRingCenter + vx mainOffset)
                               (vy mainRingCenter + vy mainOffset)
                               (vz mainRingCenter + vz mainOffset);
          s1 = s\<lparr>transitionTargets :=
                   (case selectedPart of
                      Some p \<Rightarrow> (\<lambda>_. None)(p \<mapsto> selectedTarget) | None \<Rightarrow> (\<lambda>_. None)),
                 transitionScales :=
                   (case selectedPart of
                      Some p \<Rightarrow> (\<lambda>_. None)(p \<mapsto> 1.0) | None \<Rightarrow> (\<lambda>_. None))\<rparr>;
          selectedIndex = indexOfMajor selectedPart;
          s2 = updateSubRingVisibility selectedIndex s1
      in fold (assignSubRing selectedPart) (zip majorParts [0..<length majorParts]) s2)"

definition applyPartViewLayout :: "SimpleStateMachine \<Rightarrow> SimpleStateMachine" where
  "applyPartViewLayout s =
     (if model s = None then s
      else case selectedMajorPart s of
             None \<Rightarrow> s
           | Some selectedPart \<Rightarrow>
               (calculateTransitionTargets (Some selectedPart) s)\<lparr>isTransitioning := True\<rparr>)"

subsection \<open>State transitions and the explosion factor\<close>

definition showRingDecoration :: "SimpleStateMachine \<Rightarrow> SimpleStateMachine" where
  "showRingDecoration s = s\<lparr>ringDecorationVisible := True\<rparr>"

definition hideRingDecoration :: "SimpleStateMachine \<Rightarrow> SimpleStateMachine" where
  "hideRingDecoration s = s\<lparr>ringDecorationVisible := False\<rparr>"

definition transitionTo :: "SimpleViewState \<Rightarrow> SimpleStateMachine \<Rightarrow> SimpleStateMachine" where
  "transitionTo newState s =
     (let oldState = state s in
      if oldState = newState then s
      else
        let s1 = s\<lparr>state := newState\<rparr>;
            s2 = (if newState = PartView
                  then showRingDecoration
                         (s1\<lparr>globalExplosionTarget := max (globalExplosionTarget s1) 1\<rparr>)
                  else hideRingDecoration s1)
        in if newState = PartView then applyPartViewLayout s2 else s2)"

definition adjustExplosion :: "real \<Rightarrow> SimpleStateMachine \<Rightarrow> SimpleStateMachine" where
  "adjustExplosion delta s =
     (if state s = PartView then
        s\<lparr>partExplosionTarget := max 0 (min 1 (partExplosionTarget s + delta))\<rparr>
      else
        let s1 = s\<lparr>globalExplosionTarget := max 0 (min 1 (globalExplosionTarget s + delta))\<rparr>
        in if globalExplosionTarget s1 > 0.1 \<and> state s1 = Assembled then transitionTo Exploded s1
           else if globalExplosionTarget s1 < 0.05 \<and> state s1 = Exploded
           then transitionTo Assembled s1
           else s1)"

subsection \<open>Writing part transforms\<close>

text \<open>
  The loops over part ids all start with \<open>config = model.parts.get(partId)\<close>, return when
  there is none, and otherwise write to the node of that config: \<open>withConfig\<close> is that
  lookup, and each \<open>...Config\<close> function is the write of one loop body.
\<close>

definition withConfig :: "(PartConfig \<Rightarrow> PartConfig) \<Rightarrow> PartId \<Rightarrow> MechModel \<Rightarrow> MechModel" where
  "withConfig change partId m =
     (case parts m partId of
        None \<Rightarrow> m
      | Some config \<Rightarrow> m\<lparr>parts := (parts m)(partId \<mapsto> change config)\<rparr>)"

definition explodeConfig :: "real \<Rightarrow> PartId \<Rightarrow> PartConfig \<Rightarrow> PartConfig" where
  "explodeConfig factor partId config =
     (case node config of
        None \<Rightarrow> config
      | Some nd \<Rightarrow>
          let offset = EXPLODE_OFFSETS partId;
              dir = normalize (direction offset);
              dist = distance offset * factor
          in case originalPosition config of
               None \<Rightarrow> config
             | Some orig \<Rightarrow>
                 config\<lparr>node := Some (nd\<lparr>position := vadd orig (multiplyScalar dir dist)\<rparr>)\<rparr>)"

definition explodeNode :: "real \<Rightarrow> PartId \<Rightarrow> MechModel \<Rightarrow> MechModel" where
  "explodeNode factor partId m = withConfig (explodeConfig factor partId) partId m"

definition applyNormalExplosion :: "SimpleStateMachine \<Rightarrow> SimpleStateMachine" where
  "applyNormalExplosion s =
     (case model s of
        None \<Rightarrow> s
      | Some m \<Rightarrow> s\<lparr>model := Some (fold (explodeNode (globalExplosion s)) majorParts m)\<rparr>)"

definition applyExplosion :: "SimpleStateMachine \<Rightarrow> SimpleStateMachine" where
  "applyExplosion s =
     (if model s = None then s
      else if state s = PartView then applyPartViewLayout s
      else applyNormalExplosion s)"

definition applyPartExplosion :: "SimpleStateMachine \<Rightarrow> SimpleStateMachine" where
  "applyPartExplosion s =
     (case model s of
        None \<Rightarrow> s
      | Some m \<Rightarrow>
          (case selectedMajorPart s of
             None \<Rightarrow> s
           | Some selectedPart \<Rightarrow>
               if partExplosion s > 0
               then s\<lparr>model := Some (fold (explodeNode (partExplosion s))
                                           (getChildParts selectedPart) m)\<rparr>
               else s))"

text \<open>One iteration of \<open>applyTransitionAnimation\<close>: the model and the flag \<open>allReached\<close>.\<close>

definition animateNode ::
  "(PartId \<Rightarrow> vec3 option) \<Rightarrow> (PartId \<Rightarrow> real option) \<Rightarrow> PartId
     \<Rightarrow> MechModel \<times> bool \<Rightarrow> MechModel \<times> bool" where
  "animateNode targets scales partId acc =
     (let m = fst acc; allReached = snd acc in
      case parts m partId of
        None \<Rightarrow> acc
      | Some config \<Rightarrow>
          (case node config of
             None \<Rightarrow> acc
           | Some nd \<Rightarrow>
               let targetScale = (case scales partId of
                                    None \<Rightarrow> 1
                                  | Some v \<Rightarrow> if v = 0 then 1 else v)
               in case targets partId of
                    None \<Rightarrow> acc
                  | Some targetPos \<Rightarrow>
                      let currentPos = position nd;
                          currentScale = vx (scale nd);
                          posDistance = distanceTo currentPos targetPos;
                          posReached = (posDistance < 0.01);
                          newPos = (if posReached then targetPos
                                    else lerp currentPos targetPos transitionSpeed);
                          scaleDistance = \<bar>currentScale - targetScale\<bar>;
                          scaleReached = (scaleDistance < 0.01);
                          newScale = (if scaleReached then setScalar targetScale
                                      else setScalar (lerpScalar currentScale targetScale
                                                        transitionSpeed))
                      in (m\<lparr>parts := (parts m)(partId \<mapsto>
                               config\<lparr>node := Some (nd\<lparr>position := newPos,
                                                          scale := newScale\<rparr>)\<rparr>)\<rparr>,
                          allReached \<and> posReached \<and> scaleReached)))"

definition applyTransitionAnimation :: "SimpleStateMachine \<Rightarrow> SimpleStateMachine" where
  "applyTransitionAnimation s =
     (case model s of
        None \<Rightarrow> s
      | Some m \<Rightarrow>
          if \<not> isTransitioning s then s
          else
            let r = fold (animateNode (transitionTargets s) (transitionScales s))
                         majorParts (m, True)
            in s\<lparr>model := Some (fst r),
                  isTransitioning := (if snd r then False else isTransitioning s)\<rparr>)"

definition resetConfigPosition :: "PartConfig \<Rightarrow> PartConfig" where
  "resetConfigPosition config =
     (case (node config, originalPosition config) of
        (Some nd, Some orig) \<Rightarrow> config\<lparr>node := Some (nd\<lparr>position := orig\<rparr>)\<rparr>
      | _ \<Rightarrow> config)"

definition resetNodePosition :: "PartId \<Rightarrow> MechModel \<Rightarrow> MechModel" where
  "resetNodePosition partId m = withConfig resetConfigPosition partId m"

definition resetConfigScale :: "PartConfig \<Rightarrow> PartConfig" where
  "resetConfigScale config =
     (case node config of
        Some nd \<Rightarrow> config\<lparr>node := Some (nd\<lparr>scale := setScalar 1\<rparr>)\<rparr>
      | None \<Rightarrow> config)"

definition resetNodeScale :: "PartId \<Rightarrow> MechModel \<Rightarrow> MechModel" where
  "resetNodeScale partId m = withConfig resetConfigScale partId m"

definition resetChildrenOf :: "PartId option \<Rightarrow> PartId \<Rightarrow> MechModel \<Rightarrow> MechModel" where
  "resetChildrenOf keepPart parentId m =
     (if Some parentId = keepPart then m
      else fold resetNodePosition (getChildParts parentId) m)"

definition resetAllChildrenExcept ::
  "PartId option \<Rightarrow> SimpleStateMachine \<Rightarrow> SimpleStateMachine" where
  "resetAllChildrenExcept keepPart s =
     (case model s of
        None \<Rightarrow> s
      | Some m \<Rightarrow> s\<lparr>model := Some (fold (resetChildrenOf keepPart) majorParts m)\<rparr>)"

definition resetAllPartPositions :: "SimpleStateMachine \<Rightarrow> SimpleStateMachine" where
  "resetAllPartPositions s =
     (case model s of
        None \<Rightarrow> s
      | Some m \<Rightarrow> s\<lparr>model := Some (fold resetNodePosition majorParts m)\<rparr>)"

definition resetAllPartScales :: "SimpleStateMachine \<Rightarrow> SimpleStateMachine" where
  "resetAllPartScales s =
     (case model s of
        None \<Rightarrow> s
      | Some m \<Rightarrow> s\<lparr>model := Some (fold resetNodeScale majorParts m)\<rparr>)"

subsection \<open>The frame update\<close>

definition update :: "SimpleStateMachine \<Rightarrow> SimpleStateMachine" where
  "update s =
     (if model s = None then s
      else
        let smoothing = 0.1;
            globalChanged = (\<bar>globalExplosion s - globalExplosionTarget s\<bar> > 0.001);
            s1 = (if globalChanged
                  then s\<lparr>globalExplosion := globalExplosion s
                           + (globalExplosionTarget s - globalExplosion s) * smoothing\<rparr>
                  else s);
            partChanged = (\<bar>partExplosion s1 - partExplosionTarget s1\<bar> > 0.001);
            s2 = (if partChanged
                  then s1\<lparr>partExplosion := partExplosion s1
                            + (partExplosionTarget s1 - partExplosion s1) * smoothing\<rparr>
                  else s1);
            explosionChanged = (globalChanged \<or> partChanged)
        in if state s2 = PartView \<and> isTransitioning s2 then
             (let s3 = applyTransitionAnimation s2
              in if partExplosion s3 > 0 then applyPartExplosion s3 else s3)
           else if explosionChanged then applyExplosion s2
           else s2)"

subsection \<open>Selection, navigation, going back\<close>

definition setHoveredPartId :: "PartId option \<Rightarrow> SimpleStateMachine \<Rightarrow> SimpleStateMachine" where
  "setHoveredPartId partId s =
     (if hoveredPart s = partId then s else s\<lparr>hoveredPart := partId\<rparr>)"

definition selectPart :: "PartId option \<Rightarrow> SimpleStateMachine \<Rightarrow> SimpleStateMachine" where
  "selectPart partId s =
     (let s1 = s\<lparr>selectedMajorPart := partId,
                 currentPartIndex := indexOfMajor partId,
                 globalExplosionTarget := max (globalExplosionTarget s) 1,
                 partExplosionTarget := 0,
                 partExplosion := 0\<rparr>;
          s2 = resetAllChildrenExcept partId s1;
          s3 = calculateTransitionTargets partId s2
      in s3\<lparr>isTransitioning := True\<rparr>)"

text \<open>\<open>selectHoveredPart\<close> returns its boolean beside the new state.\<close>

definition selectHoveredPart :: "SimpleStateMachine \<Rightarrow> bool \<times> SimpleStateMachine" where
  "selectHoveredPart s =
     (case hoveredPart s of
        None \<Rightarrow> (False, s)
      | Some hovered \<Rightarrow>
          if state s = Exploded \<or> globalExplosion s > 0.1 then
            (if hovered \<in> set majorParts then
               let majorPart = hovered;
                   s1 = s\<lparr>selectedMajorPart := Some majorPart,
                           currentPartIndex := indexOf majorParts majorPart,
                           partExplosionTarget := 0,
                           partExplosion := 0,
                           globalExplosion := max (globalExplosion s) 0.5,
                           globalExplosionTarget := max (globalExplosionTarget s) 1\<rparr>;
                   s2 = transitionTo PartView s1;
                   s3 = applyPartViewLayout s2
               in (True, s3)
             else (False, s))
          else if state s = PartView then
            (if hovered \<in> set majorParts then (True, selectPart (Some hovered) s)
             else (False, s))
          else (False, s))"

datatype UpDown = up | down

datatype LeftRight = left | right

definition navigateInternal :: "int \<Rightarrow> SimpleStateMachine \<Rightarrow> SimpleStateMachine" where
  "navigateInternal delta s =
     (if state s \<noteq> PartView \<and> state s \<noteq> Exploded then s
      else if length majorParts = 0 then s
      else
        let n = int (length majorParts);
            s1 = s\<lparr>currentPartIndex := jsRem (currentPartIndex s + delta + n) n\<rparr>;
            newPart = elemAt majorParts (currentPartIndex s1)
        in if state s1 = PartView then selectPart newPart s1
           else s1\<lparr>hoveredPart := newPart\<rparr>)"

definition navigate :: "UpDown \<Rightarrow> SimpleStateMachine \<Rightarrow> SimpleStateMachine" where
  "navigate dir s = navigateInternal (if dir = up then -1 else 1) s"

definition navigateLeftRight :: "LeftRight \<Rightarrow> SimpleStateMachine \<Rightarrow> SimpleStateMachine" where
  "navigateLeftRight dir s = navigateInternal (if dir = left then -1 else 1) s"

definition goBack :: "SimpleStateMachine \<Rightarrow> SimpleStateMachine" where
  "goBack s =
     (if state s = PartView then
        let s1 = resetAllChildrenExcept None s;
            s2 = s1\<lparr>hoveredPart := None, selectedMajorPart := None,
                    partExplosionTarget := 0, partExplosion := 0\<rparr>;
            s3 = resetAllPartScales s2;
            s4 = resetAllPartPositions s3;
            s5 = s4\<lparr>globalExplosionTarget := 0\<rparr>
        in transitionTo Assembled s5
      else if state s = Exploded then s\<lparr>globalExplosionTarget := 0\<rparr>
      else s)"

text \<open>\<open>reset\<close> walks over every entry of \<open>model.parts\<close>.\<close>

definition resetAllNodes :: "MechModel \<Rightarrow> MechModel" where
  "resetAllNodes m = m\<lparr>parts := (\<lambda>partId. map_option resetConfigPosition (parts m partId))\<rparr>"

definition reset :: "SimpleStateMachine \<Rightarrow> SimpleStateMachine" where
  "reset s =
     s\<lparr>state := Assembled, globalExplosion := 0, partExplosion := 0, hoveredPart := None,
       selectedMajorPart := None, currentPartIndex := 0, partList := majorParts,
       globalExplosionTarget := 0, partExplosionTarget := 0,
       model := map_option resetAllNodes (model s)\<rparr>"

subsection \<open>Reachable states\<close>

text \<open>The public operations, and the states a sequence of them reaches from the constructor's
  state.\<close>

datatype Operation =
    Init MechModel
  | AdjustExplosion real
  | Update
  | SetHoveredPartId "PartId option"
  | SelectHoveredPart
  | Navigate UpDown
  | NavigateLeftRight LeftRight
  | GoBack
  | Reset

fun perform :: "Operation \<Rightarrow> SimpleStateMachine \<Rightarrow> SimpleStateMachine" where
  "perform (Init m) s = init m s"
| "perform (AdjustExplosion delta) s = adjustExplosion delta s"
| "perform Update s = update s"
| "perform (SetHoveredPartId partId) s = setHoveredPartId partId s"
| "perform SelectHoveredPart s = snd (selectHoveredPart s)"
| "perform (Navigate dir) s = navigate dir s"
| "perform (NavigateLeftRight dir) s = navigateLeftRight dir s"
| "perform GoBack s = goBack s"
| "perform Reset s = reset s"

definition run :: "Operation list \<Rightarrow> SimpleStateMachine \<Rightarrow> SimpleStateMachine" where
  "run ops s = fold perform ops s"

inductive reachable :: "SimpleStateMachine \<Rightarrow> bool" where
  start: "reachable createSimpleStateMachine"
| step: "reachable s \<Longrightarrow> reachable (perform operation s)"

text \<open>The smoothing that \<open>update\<close> applies to each of the two factors, as a function of the
  target and the current value.\<close>

definition smoothStep :: "real \<Rightarrow> real \<Rightarrow> real" where
  "smoothStep target current =
     (if \<bar>current - target\<bar> > 0.001 then current + (target - current) * 0.1 else current)"

definition viewStateInvariant :: "SimpleStateMachine \<Rightarrow> bool" where
  "viewStateInvariant s = ((selectedMajorPart s \<noteq> None) = (state s = PartView))"

definition inUnit :: "real \<Rightarrow> bool" where
  "inUnit v = (0 \<le> v \<and> v \<le> 1)"

definition factorsClamped :: "SimpleStateMachine \<Rightarrow> bool" where
  "factorsClamped s =
     (inUnit (globalExplosion s) \<and> inUnit (globalExplosionTarget s) \<and>
      inUnit (partExplosion s) \<and> inUnit (partExplosionTarget s))"

definition indexValid :: "SimpleStateMachine \<Rightarrow> bool" where
  "indexValid s =
     (0 \<le> currentPartIndex s \<and> currentPartIndex s < int (length majorParts) \<and>
      (case selectedMajorPart s of
         None \<Rightarrow> True
       | Some p \<Rightarrow> elemAt majorParts (currentPartIndex s) = Some p))"

text \<open>The ring layout in the words of the specification: the focused part at the primary-ring
  centre plus its offset, any other major part at the slot of its position in the major-parts
  list plus its offset.\<close>

definition slotIndex :: "PartId \<Rightarrow> int" where
  "slotIndex partId = indexOf majorParts partId"

definition primaryRingTarget :: "PartId \<Rightarrow> vec3" where
  "primaryRingTarget partId =
     vadd mainRingCenter (case partPositionInMainRing partId of
                            Some off \<Rightarrow> off | None \<Rightarrow> vec 0 0 0)"

definition secondaryRingTarget :: "PartId \<Rightarrow> vec3" where
  "secondaryRingTarget partId =
     vadd (subRingPosition (nat (slotIndex partId)))
          (case partPositionInSubRing partId of Some off \<Rightarrow> off | None \<Rightarrow> vec 0 0 0)"

text \<open>The angle of slot \<open>i\<close> (\<open>startAngle + angleStep * i\<close>) and the sub-ring offset with its
  default.\<close>

definition slotAngle :: "nat \<Rightarrow> real" where
  "slotAngle i = - pi / 2 + (pi * 2) / 7 * real i"

definition subRingOffset :: "PartId \<Rightarrow> vec3" where
  "subRingOffset partId =
     (case partPositionInSubRing partId of Some off \<Rightarrow> off | None \<Rightarrow> vec 0 0 0)"

text \<open>Reading a part's node out of the state machine's model.\<close>

definition partNode :: "SimpleStateMachine \<Rightarrow> PartId \<Rightarrow> Object3D option" where
  "partNode s partId = Option.bind (model s) (\<lambda>m. Option.bind (parts m partId) node)"

section \<open>ExplodeController\<close>

text \<open>
  \<open>hasModel\<close> says that \<open>this.model\<close> is set. A \<open>MechPart\<close> carries its mesh, whose transform
  the controller rewrites; \<open>partDataCache\<close> holds the base pose captured by \<open>initPartData\<close>.
  The two branches on \<open>isSkinnedMesh\<close> in \<open>updatePartPositions\<close> are the same statement.
\<close>

definition SMOOTHING :: real where "SMOOTHING = 0.08"
definition ROTATION_AMOUNT :: real where "ROTATION_AMOUNT = 0.1"
definition GLOBAL_SCALE :: real where "GLOBAL_SCALE = 1.0"
definition CHANGE_THRESHOLD :: real where "CHANGE_THRESHOLD = 0.001"
definition MAX_CHANGE_PER_FRAME :: real where "MAX_CHANGE_PER_FRAME = 0.05"

record MechPart =
  name :: PartId
  mesh :: Object3D
  partExplodeDirection :: vec3
  partExplodeDistance :: real

record PartData =
  basePosition :: vec3
  baseRotation :: vec3
  baseScale :: vec3
  explodeDirection :: vec3
  explodeDistance :: real

record ExplodeController =
  hasModel :: bool
  partsArray :: "MechPart list"
  globalFactorCurrent :: real
  globalFactorTarget :: real
  partFactorCurrent :: real
  partFactorTarget :: real
  partDataCache :: "PartId \<Rightarrow> PartData option"

definition createExplodeController :: ExplodeController where
  "createExplodeController =
     \<lparr>hasModel = False, partsArray = [], globalFactorCurrent = 0, globalFactorTarget = 0,
      partFactorCurrent = 0, partFactorTarget = 0, partDataCache = (\<lambda>_. None)\<rparr>"

definition cachePart :: "MechPart \<Rightarrow> (PartId \<Rightarrow> PartData option) \<Rightarrow> (PartId \<Rightarrow> PartData option)" where
  "cachePart part cache =
     cache(name part \<mapsto>
       \<lparr>basePosition = position (mesh part), baseRotation = rotation (mesh part),
        baseScale = scale (mesh part), explodeDirection = partExplodeDirection part,
        explodeDistance = partExplodeDistance part\<rparr>)"

definition initPartData :: "ExplodeController \<Rightarrow> ExplodeController" where
  "initPartData c =
     (if partsArray c = [] then c
      else c\<lparr>partDataCache := fold cachePart (partsArray c) (\<lambda>_. None)\<rparr>)"

text \<open>\<open>setModel\<close>, given the array that \<open>getPartsArray(model)\<close> yields.\<close>

definition setModel :: "MechPart list \<Rightarrow> ExplodeController \<Rightarrow> ExplodeController" where
  "setModel ps c = initPartData (c\<lparr>hasModel := True, partsArray := ps\<rparr>)"

definition setGlobalExplosionTarget :: "real \<Rightarrow> ExplodeController \<Rightarrow> ExplodeController" where
  "setGlobalExplosionTarget factor c = c\<lparr>globalFactorTarget := max 0 (min 1 factor)\<rparr>"



definition setPartExplosionTarget :: "real \<Rightarrow> ExplodeController \<Rightarrow> ExplodeController" where
  "setPartExplosionTarget factor c = c\<lparr>partFactorTarget := max 0 (min 1 factor)\<rparr>"



definition smoothValue :: "real \<Rightarrow> real \<Rightarrow> real \<Rightarrow> real" where
  "smoothValue current target smoothing =
     (let diff = target - current;
          clampedDiff = max (- MAX_CHANGE_PER_FRAME) (min MAX_CHANGE_PER_FRAME (diff * smoothing));
          newValue = current + clampedDiff
      in if \<bar>newValue - target\<bar> < CHANGE_THRESHOLD then target else newValue)"

definition updatePart :: "(PartId \<Rightarrow> PartData option) \<Rightarrow> real \<Rightarrow> MechPart \<Rightarrow> MechPart" where
  "updatePart cache factorCurrent part =
     (case cache (name part) of
        None \<Rightarrow> part
      | Some data \<Rightarrow>
          let effectiveFactor = factorCurrent * GLOBAL_SCALE;
              explodeOffset = multiplyScalar (explodeDirection data)
                                (explodeDistance data * effectiveFactor * 2);
              newPosition = vadd (basePosition data) explodeOffset;
              newRotation =
                (if effectiveFactor > 0.01 then
                   let rotAmount = effectiveFactor * ROTATION_AMOUNT
                   in vec (vx (baseRotation data) + vx (explodeDirection data) * rotAmount)
                          (vy (baseRotation data) + vy (explodeDirection data) * rotAmount)
                          (vz (baseRotation data) + vz (explodeDirection data) * rotAmount)
                 else baseRotation data)
          in part\<lparr>mesh := (mesh part)\<lparr>position := newPosition, rotation := newRotation\<rparr>\<rparr>)"

definition updatePartPositions :: "ExplodeController \<Rightarrow> ExplodeController" where
  "updatePartPositions c =
     (if partsArray c = [] then c
      else c\<lparr>partsArray := map (updatePart (partDataCache c) (globalFactorCurrent c))
                                (partsArray c)\<rparr>)"

definition updateExplode :: "ExplodeController \<Rightarrow> ExplodeController" where
  "updateExplode c =
     (if \<not> hasModel c then c
      else
        let c1 = c\<lparr>globalFactorCurrent :=
                     smoothValue (globalFactorCurrent c) (globalFactorTarget c) SMOOTHING\<rparr>;
            c2 = c1\<lparr>partFactorCurrent :=
                      smoothValue (partFactorCurrent c1) (partFactorTarget c1) SMOOTHING\<rparr>
        in updatePartPositions c2)"

text \<open>The operations that set targets and tick, and what a sequence of them reaches.\<close>

datatype ExplodeOperation =
    SetModel "MechPart list"
  | SetGlobalExplosionTarget real
  | SetPartExplosionTarget real
  | UpdateExplode

fun performExplode :: "ExplodeOperation \<Rightarrow> ExplodeController \<Rightarrow> ExplodeController" where
  "performExplode (SetModel ps) c = setModel ps c"
| "performExplode (SetGlobalExplosionTarget v) c = setGlobalExplosionTarget v c"
| "performExplode (SetPartExplosionTarget v) c = setPartExplosionTarget v c"
| "performExplode UpdateExplode c = updateExplode c"

inductive reachableExplode :: "ExplodeController \<Rightarrow> bool" where
  startExplode: "reachableExplode createExplodeController"
| stepExplode: "reachableExplode c \<Longrightarrow> reachableExplode (performExplode operation c)"

definition explodeFactorsClamped :: "ExplodeController \<Rightarrow> bool" where
  "explodeFactorsClamped c =
     (inUnit (globalFactorCurrent c) \<and> inUnit (globalFactorTarget c) \<and>
      inUnit (partFactorCurrent c) \<and> inUnit (partFactorTarget c))"

section \<open>SelectionController\<close>

text \<open>
  \<open>setSelectedPart\<close> compares \<open>MechPart\<close> objects by reference, so a part is a reference here.
  \<open>partMesh\<close> is the \<open>mesh\<close> field of each part object and \<open>childCount\<close> is
  \<open>children.length\<close> of each scene node; both are read, never written. Highlighting,
  dimming and the stored scales act on materials and \<open>userData\<close> of the scene nodes and are
  not part of this state.
\<close>

type_synonym MechPartRef = nat
type_synonym Object3DRef = nat

datatype FocusMode = global | part

record SelectionController =
  partMesh :: "MechPartRef \<Rightarrow> Object3DRef"
  childCount :: "Object3DRef \<Rightarrow> nat"
  selectedPart :: "MechPartRef option"
  focusMode :: FocusMode
  focusRoot :: "Object3DRef option"
  navigationStack :: "MechPartRef list"

definition setFocusMode ::
  "FocusMode \<Rightarrow> MechPartRef option \<Rightarrow> SelectionController \<Rightarrow> SelectionController" where
  "setFocusMode mode p c = c\<lparr>focusMode := mode, focusRoot := map_option (partMesh c) p\<rparr>"

definition drillDown :: "SelectionController \<Rightarrow> SelectionController" where
  "drillDown c =
     (case selectedPart c of
        None \<Rightarrow> c
      | Some sel \<Rightarrow>
          let hasChildren = (childCount c (partMesh c sel) > 0) in
          if hasChildren then
            c\<lparr>navigationStack := navigationStack c @ [sel],
              focusRoot := Some (partMesh c sel),
              selectedPart := None\<rparr>
          else c)"

definition setSelectedPart ::
  "MechPartRef option \<Rightarrow> SelectionController \<Rightarrow> SelectionController" where
  "setSelectedPart p c =
     (if p \<noteq> None \<and> selectedPart c = p then drillDown c
      else
        let c1 = c\<lparr>selectedPart := p\<rparr>
        in if p \<noteq> None then setFocusMode part p c1
           else setFocusMode global None c1)"

section \<open>Frame properties of the state machine\<close>

text \<open>Which fields each method leaves alone.\<close>

lemma zip_majorParts:
  "zip majorParts [0..<length majorParts] =
     [(Head, 0), (neck, 1), (mainbody, 2), (Leftarm, 3), (Rightarm, 4), (Leftleg, 5), (Rightleg, 6)]"
  by (simp add: majorParts_def upt_rec)

lemma fold_assignSubRing_frame:
  "model (fold (assignSubRing sel) xs s) = model s \<and>
   state (fold (assignSubRing sel) xs s) = state s \<and>
   globalExplosion (fold (assignSubRing sel) xs s) = globalExplosion s \<and>
   partExplosion (fold (assignSubRing sel) xs s) = partExplosion s \<and>
   hoveredPart (fold (assignSubRing sel) xs s) = hoveredPart s \<and>
   selectedMajorPart (fold (assignSubRing sel) xs s) = selectedMajorPart s \<and>
   currentPartIndex (fold (assignSubRing sel) xs s) = currentPartIndex s \<and>
   partList (fold (assignSubRing sel) xs s) = partList s \<and>
   globalExplosionTarget (fold (assignSubRing sel) xs s) = globalExplosionTarget s \<and>
   partExplosionTarget (fold (assignSubRing sel) xs s) = partExplosionTarget s \<and>
   isTransitioning (fold (assignSubRing sel) xs s) = isTransitioning s \<and>
   ringDecorationVisible (fold (assignSubRing sel) xs s) = ringDecorationVisible s \<and>
   selectedSubRingIndex (fold (assignSubRing sel) xs s) = selectedSubRingIndex s"
  by (induction xs arbitrary: s) (auto simp: assignSubRing_def Let_def split: option.splits)

lemma calculateTransitionTargets_frame:
  "model (calculateTransitionTargets sel s) = model s \<and>
   state (calculateTransitionTargets sel s) = state s \<and>
   globalExplosion (calculateTransitionTargets sel s) = globalExplosion s \<and>
   partExplosion (calculateTransitionTargets sel s) = partExplosion s \<and>
   hoveredPart (calculateTransitionTargets sel s) = hoveredPart s \<and>
   selectedMajorPart (calculateTransitionTargets sel s) = selectedMajorPart s \<and>
   currentPartIndex (calculateTransitionTargets sel s) = currentPartIndex s \<and>
   partList (calculateTransitionTargets sel s) = partList s \<and>
   globalExplosionTarget (calculateTransitionTargets sel s) = globalExplosionTarget s \<and>
   partExplosionTarget (calculateTransitionTargets sel s) = partExplosionTarget s \<and>
   isTransitioning (calculateTransitionTargets sel s) = isTransitioning s \<and>
   ringDecorationVisible (calculateTransitionTargets sel s) = ringDecorationVisible s"
  by (simp add: calculateTransitionTargets_def Let_def fold_assignSubRing_frame
        updateSubRingVisibility_def)

lemma applyPartViewLayout_frame:
  "model (applyPartViewLayout s) = model s \<and>
   state (applyPartViewLayout s) = state s \<and>
   globalExplosion (applyPartViewLayout s) = globalExplosion s \<and>
   partExplosion (applyPartViewLayout s) = partExplosion s \<and>
   hoveredPart (applyPartViewLayout s) = hoveredPart s \<and>
   selectedMajorPart (applyPartViewLayout s) = selectedMajorPart s \<and>
   currentPartIndex (applyPartViewLayout s) = currentPartIndex s \<and>
   partList (applyPartViewLayout s) = partList s \<and>
   globalExplosionTarget (applyPartViewLayout s) = globalExplosionTarget s \<and>
   partExplosionTarget (applyPartViewLayout s) = partExplosionTarget s \<and>
   ringDecorationVisible (applyPartViewLayout s) = ringDecorationVisible s"
  by (simp add: applyPartViewLayout_def calculateTransitionTargets_frame split: option.splits)

lemma transitionTo_frame:
  "model (transitionTo st s) = model s \<and>
   state (transitionTo st s) = st \<and>
   globalExplosion (transitionTo st s) = globalExplosion s \<and>
   partExplosion (transitionTo st s) = partExplosion s \<and>
   hoveredPart (transitionTo st s) = hoveredPart s \<and>
   selectedMajorPart (transitionTo st s) = selectedMajorPart s \<and>
   currentPartIndex (transitionTo st s) = currentPartIndex s \<and>
   partList (transitionTo st s) = partList s \<and>
   partExplosionTarget (transitionTo st s) = partExplosionTarget s \<and>
   globalExplosionTarget (transitionTo st s) =
     (if st = PartView \<and> state s \<noteq> PartView then max (globalExplosionTarget s) 1
      else globalExplosionTarget s)"
  by (simp add: transitionTo_def Let_def applyPartViewLayout_frame showRingDecoration_def
        hideRingDecoration_def)

lemma modelOnly_frame:
  fixes h :: "SimpleStateMachine \<Rightarrow> SimpleStateMachine"
  assumes "h = applyNormalExplosion \<or> h = applyPartExplosion \<or> h = resetAllChildrenExcept k
           \<or> h = resetAllPartPositions \<or> h = resetAllPartScales"
  shows "state (h s) = state s \<and>
   globalExplosion (h s) = globalExplosion s \<and>
   partExplosion (h s) = partExplosion s \<and>
   hoveredPart (h s) = hoveredPart s \<and>
   selectedMajorPart (h s) = selectedMajorPart s \<and>
   currentPartIndex (h s) = currentPartIndex s \<and>
   partList (h s) = partList s \<and>
   globalExplosionTarget (h s) = globalExplosionTarget s \<and>
   partExplosionTarget (h s) = partExplosionTarget s \<and>
   transitionTargets (h s) = transitionTargets s \<and>
   transitionScales (h s) = transitionScales s \<and>
   isTransitioning (h s) = isTransitioning s \<and>
   ringDecorationVisible (h s) = ringDecorationVisible s \<and>
   selectedSubRingIndex (h s) = selectedSubRingIndex s \<and>
   (model (h s) = None) = (model s = None)"
  using assms
  by (auto simp: applyNormalExplosion_def applyPartExplosion_def resetAllChildrenExcept_def
        resetAllPartPositions_def resetAllPartScales_def split: option.splits if_splits)

lemma applyTransitionAnimation_frame:
  "state (applyTransitionAnimation s) = state s \<and>
   globalExplosion (applyTransitionAnimation s) = globalExplosion s \<and>
   partExplosion (applyTransitionAnimation s) = partExplosion s \<and>
   hoveredPart (applyTransitionAnimation s) = hoveredPart s \<and>
   selectedMajorPart (applyTransitionAnimation s) = selectedMajorPart s \<and>
   currentPartIndex (applyTransitionAnimation s) = currentPartIndex s \<and>
   partList (applyTransitionAnimation s) = partList s \<and>
   globalExplosionTarget (applyTransitionAnimation s) = globalExplosionTarget s \<and>
   partExplosionTarget (applyTransitionAnimation s) = partExplosionTarget s \<and>
   transitionTargets (applyTransitionAnimation s) = transitionTargets s \<and>
   transitionScales (applyTransitionAnimation s) = transitionScales s \<and>
   (model (applyTransitionAnimation s) = None) = (model s = None)"
  by (simp add: applyTransitionAnimation_def Let_def split: option.splits)

lemma applyExplosion_frame:
  "state (applyExplosion s) = state s \<and>
   globalExplosion (applyExplosion s) = globalExplosion s \<and>
   partExplosion (applyExplosion s) = partExplosion s \<and>
   hoveredPart (applyExplosion s) = hoveredPart s \<and>
   selectedMajorPart (applyExplosion s) = selectedMajorPart s \<and>
   currentPartIndex (applyExplosion s) = currentPartIndex s \<and>
   partList (applyExplosion s) = partList s \<and>
   globalExplosionTarget (applyExplosion s) = globalExplosionTarget s \<and>
   partExplosionTarget (applyExplosion s) = partExplosionTarget s \<and>
   (model (applyExplosion s) = None) = (model s = None)"
  by (simp add: applyExplosion_def applyPartViewLayout_frame
        modelOnly_frame [where h = applyNormalExplosion])

lemma update_frame:
  "state (update s) = state s \<and>
   hoveredPart (update s) = hoveredPart s \<and>
   selectedMajorPart (update s) = selectedMajorPart s \<and>
   currentPartIndex (update s) = currentPartIndex s \<and>
   partList (update s) = partList s \<and>
   globalExplosionTarget (update s) = globalExplosionTarget s \<and>
   partExplosionTarget (update s) = partExplosionTarget s \<and>
   (model (update s) = None) = (model s = None) \<and>
   globalExplosion (update s) =
     (if model s = None then globalExplosion s
      else smoothStep (globalExplosionTarget s) (globalExplosion s)) \<and>
   partExplosion (update s) =
     (if model s = None then partExplosion s
      else smoothStep (partExplosionTarget s) (partExplosion s))"
  by (simp add: update_def Let_def smoothStep_def applyExplosion_frame applyTransitionAnimation_frame
        modelOnly_frame [where h = applyPartExplosion])

lemma selectPart_frame:
  "state (selectPart p s) = state s \<and>
   hoveredPart (selectPart p s) = hoveredPart s \<and>
   selectedMajorPart (selectPart p s) = p \<and>
   currentPartIndex (selectPart p s) = indexOfMajor p \<and>
   partList (selectPart p s) = partList s \<and>
   globalExplosion (selectPart p s) = globalExplosion s \<and>
   partExplosion (selectPart p s) = 0 \<and>
   globalExplosionTarget (selectPart p s) = max (globalExplosionTarget s) 1 \<and>
   partExplosionTarget (selectPart p s) = 0 \<and>
   isTransitioning (selectPart p s) \<and>
   (model (selectPart p s) = None) = (model s = None)"
  by (simp add: selectPart_def Let_def calculateTransitionTargets_frame
        modelOnly_frame [where h = "resetAllChildrenExcept p" and k = p])

lemma length_majorParts: "length majorParts = 7"
  by (simp add: majorParts_def)

lemma indexOf_majorParts:
  "p \<in> set majorParts \<Longrightarrow>
     0 \<le> indexOf majorParts p \<and> indexOf majorParts p < 7 \<and>
     elemAt majorParts (indexOf majorParts p) = Some p"
  by (auto simp: majorParts_def indexOf_def elemAt_def)

lemma elemAt_majorParts:
  "0 \<le> i \<Longrightarrow> i < 7 \<Longrightarrow> \<exists>p. elemAt majorParts i = Some p \<and> p \<in> set majorParts \<and> indexOf majorParts p = i"
proof -
  assume "0 \<le> i" "i < 7"
  then have "i = 0 \<or> i = 1 \<or> i = 2 \<or> i = 3 \<or> i = 4 \<or> i = 5 \<or> i = 6" by arith
  then show ?thesis
    by (auto simp: majorParts_def indexOf_def elemAt_def)
qed

lemma jsRem_range: "0 \<le> i \<Longrightarrow> - 7 \<le> d \<Longrightarrow> 0 \<le> jsRem (i + d + 7) 7 \<and> jsRem (i + d + 7) 7 < 7"
  by (simp add: jsRem_def)

lemma jsRem_mod: "0 \<le> i \<Longrightarrow> - 7 \<le> d \<Longrightarrow> jsRem (i + d + 7) 7 = (i + d) mod 7"
  by (simp add: jsRem_def)

lemma selectHoveredPart_frame:
  "hoveredPart (snd (selectHoveredPart s)) = hoveredPart s \<and>
   partList (snd (selectHoveredPart s)) = partList s \<and>
   (model (snd (selectHoveredPart s)) = None) = (model s = None)"
  by (simp add: selectHoveredPart_def Let_def applyPartViewLayout_frame transitionTo_frame
        selectPart_frame split: option.splits)

lemma inv_selectHoveredPart:
  assumes "viewStateInvariant s" "factorsClamped s" "indexValid s"
  shows "viewStateInvariant (snd (selectHoveredPart s)) \<and> factorsClamped (snd (selectHoveredPart s))
         \<and> indexValid (snd (selectHoveredPart s))"
  using assms
  by (auto simp: selectHoveredPart_def Let_def applyPartViewLayout_frame transitionTo_frame
        selectPart_frame viewStateInvariant_def factorsClamped_def indexValid_def inUnit_def
        indexOfMajor_def indexOf_majorParts length_majorParts
        split: option.splits)

lemma navigateInternal_frame:
  "partList (navigateInternal d s) = partList s \<and>
   state (navigateInternal d s) = state s \<and>
   globalExplosion (navigateInternal d s) = globalExplosion s \<and>
   (model (navigateInternal d s) = None) = (model s = None)"
  by (simp add: navigateInternal_def Let_def selectPart_frame)

lemma inv_navigateInternal:
  assumes "viewStateInvariant s" "factorsClamped s" "indexValid s" "d = 1 \<or> d = - 1"
  shows "viewStateInvariant (navigateInternal d s) \<and> factorsClamped (navigateInternal d s)
         \<and> indexValid (navigateInternal d s)"
proof (cases "state s \<noteq> PartView \<and> state s \<noteq> Exploded")
  case True
  then show ?thesis using assms by (simp add: navigateInternal_def)
next
  case False
  let ?i = "jsRem (currentPartIndex s + d + 7) 7"
  from assms have r: "0 \<le> ?i \<and> ?i < 7"
    by (intro jsRem_range) (auto simp: indexValid_def)
  then obtain p where p: "elemAt majorParts ?i = Some p" "p \<in> set majorParts"
      "indexOf majorParts p = ?i"
    using elemAt_majorParts by blast
  show ?thesis
  proof (cases "state s = PartView")
    case True
    then show ?thesis using assms p r
      by (simp add: navigateInternal_def Let_def selectPart_frame viewStateInvariant_def
          factorsClamped_def indexValid_def inUnit_def indexOfMajor_def length_majorParts)
  next
    case nv: False
    with False have "state s = Exploded" by simp
    then show ?thesis using assms p r
      by (simp add: navigateInternal_def Let_def viewStateInvariant_def
          factorsClamped_def indexValid_def inUnit_def length_majorParts)
  qed
qed

lemma inv_goBack:
  assumes "viewStateInvariant s" "factorsClamped s" "indexValid s"
  shows "viewStateInvariant (goBack s) \<and> factorsClamped (goBack s) \<and> indexValid (goBack s)"
  using assms
  by (auto simp: goBack_def Let_def transitionTo_frame viewStateInvariant_def
        factorsClamped_def indexValid_def inUnit_def
        modelOnly_frame [where h = "resetAllChildrenExcept None" and k = None]
        modelOnly_frame [where h = resetAllPartScales]
        modelOnly_frame [where h = resetAllPartPositions])

lemma adjustExplosion_frame:
  "model (adjustExplosion d s) = model s \<and>
   globalExplosion (adjustExplosion d s) = globalExplosion s \<and>
   partExplosion (adjustExplosion d s) = partExplosion s \<and>
   hoveredPart (adjustExplosion d s) = hoveredPart s \<and>
   selectedMajorPart (adjustExplosion d s) = selectedMajorPart s \<and>
   currentPartIndex (adjustExplosion d s) = currentPartIndex s \<and>
   partList (adjustExplosion d s) = partList s \<and>
   partExplosionTarget (adjustExplosion d s) =
     (if state s = PartView then max 0 (min 1 (partExplosionTarget s + d))
      else partExplosionTarget s) \<and>
   globalExplosionTarget (adjustExplosion d s) =
     (if state s = PartView then globalExplosionTarget s
      else max 0 (min 1 (globalExplosionTarget s + d))) \<and>
   state (adjustExplosion d s) =
     (if state s = Assembled \<and> max 0 (min 1 (globalExplosionTarget s + d)) > 0.1 then Exploded
      else if state s = Exploded \<and> max 0 (min 1 (globalExplosionTarget s + d)) < 0.05
      then Assembled else state s)"
  by (simp add: adjustExplosion_def Let_def transitionTo_frame)

lemma inv_adjustExplosion:
  assumes "viewStateInvariant s" "factorsClamped s" "indexValid s"
  shows "viewStateInvariant (adjustExplosion d s) \<and> factorsClamped (adjustExplosion d s)
         \<and> indexValid (adjustExplosion d s)"
  using assms
  by (auto simp: adjustExplosion_frame viewStateInvariant_def factorsClamped_def indexValid_def
        inUnit_def)

lemma smoothStep_inUnit: "inUnit t \<Longrightarrow> inUnit c \<Longrightarrow> inUnit (smoothStep t c)"
proof -
  assume "inUnit t" "inUnit c"
  then have "0 \<le> t" "t \<le> 1" "0 \<le> c" "c \<le> 1" by (simp_all add: inUnit_def)
  then have "0 \<le> c + (t - c) * 0.1 \<and> c + (t - c) * 0.1 \<le> 1" by argo
  with \<open>inUnit c\<close> show ?thesis by (simp add: smoothStep_def inUnit_def)
qed

lemma inv_update:
  assumes "viewStateInvariant s" "factorsClamped s" "indexValid s"
  shows "viewStateInvariant (update s) \<and> factorsClamped (update s) \<and> indexValid (update s)"
  using assms
  by (simp add: update_frame viewStateInvariant_def factorsClamped_def indexValid_def
        smoothStep_inUnit split: option.splits)

lemma inv_reset:
  "viewStateInvariant (reset s) \<and> factorsClamped (reset s) \<and> indexValid (reset s)"
  by (simp add: reset_def viewStateInvariant_def factorsClamped_def indexValid_def inUnit_def
        length_majorParts)

lemma inv_start:
  "viewStateInvariant createSimpleStateMachine \<and> factorsClamped createSimpleStateMachine
   \<and> indexValid createSimpleStateMachine"
  by (simp add: createSimpleStateMachine_def viewStateInvariant_def factorsClamped_def
        indexValid_def inUnit_def length_majorParts)

lemma inv_perform:
  assumes "viewStateInvariant s" "factorsClamped s" "indexValid s"
  shows "viewStateInvariant (perform operation s) \<and> factorsClamped (perform operation s)
         \<and> indexValid (perform operation s)"
proof (cases operation)
  case (Init m)
  then show ?thesis using assms
    by (simp add: init_def viewStateInvariant_def factorsClamped_def indexValid_def
          split: option.splits)
next
  case (AdjustExplosion d)
  then show ?thesis using assms inv_adjustExplosion by simp
next
  case Update
  then show ?thesis using assms inv_update by simp
next
  case (SetHoveredPartId p)
  then show ?thesis using assms
    by (simp add: setHoveredPartId_def viewStateInvariant_def factorsClamped_def indexValid_def
          split: option.splits)
next
  case SelectHoveredPart
  then show ?thesis using assms inv_selectHoveredPart by simp
next
  case (Navigate dir)
  then show ?thesis using assms inv_navigateInternal by (simp add: navigate_def)
next
  case (NavigateLeftRight dir)
  then show ?thesis using assms inv_navigateInternal by (simp add: navigateLeftRight_def)
next
  case GoBack
  then show ?thesis using assms inv_goBack by simp
next
  case Reset
  then show ?thesis using inv_reset by simp
qed

lemma reachable_invariants:
  "reachable s \<Longrightarrow> viewStateInvariant s \<and> factorsClamped s \<and> indexValid s"
proof (induction rule: reachable.induct)
  case start
  show ?case by (rule inv_start)
next
  case (step s operation)
  then show ?case using inv_perform by blast
qed

section \<open>The view-state invariant\<close>

lemma reachable_run: "reachable s \<Longrightarrow> reachable (run ops s)"
  unfolding run_def
  by (induction ops arbitrary: s) (auto intro: reachable.step)

lemma run_invariants:
  "viewStateInvariant (run ops createSimpleStateMachine) \<and>
   factorsClamped (run ops createSimpleStateMachine) \<and>
   indexValid (run ops createSimpleStateMachine)"
  by (rule reachable_invariants [OF reachable_run [OF reachable.start]])


text \<open>
  Claim C2. After every sequence of public operations from the constructor's state, the
  selected major part is set exactly when the state is \<open>PartView\<close>, and one more operation
  of any kind keeps it so.
\<close>

theorem view_state_invariant:
  "(selectedMajorPart (run ops createSimpleStateMachine) \<noteq> None)
     = (state (run ops createSimpleStateMachine) = PartView)
   \<and> ((selectedMajorPart (perform operation (run ops createSimpleStateMachine)) \<noteq> None)
     = (state (perform operation (run ops createSimpleStateMachine)) = PartView))"
proof -
  have "reachable (perform operation (run ops createSimpleStateMachine))"
    by (intro reachable.step reachable_run reachable.start)
  then show ?thesis
    using run_invariants [of ops] reachable_invariants
    by (simp add: viewStateInvariant_def)
qed

theorem view_state_invariant_witness:
  "selectedMajorPart (run [AdjustExplosion 0.5, SetHoveredPartId (Some Leftarm), SelectHoveredPart]
      createSimpleStateMachine) = Some Leftarm
   \<and> state (run [AdjustExplosion 0.5, SetHoveredPartId (Some Leftarm), SelectHoveredPart]
      createSimpleStateMachine) = PartView
   \<and> selectedMajorPart (perform GoBack
        (run [AdjustExplosion 0.5, SetHoveredPartId (Some Leftarm), SelectHoveredPart]
           createSimpleStateMachine)) = None
   \<and> state (perform GoBack
        (run [AdjustExplosion 0.5, SetHoveredPartId (Some Leftarm), SelectHoveredPart]
           createSimpleStateMachine)) = Assembled"
  using view_state_invariant
    [of "[AdjustExplosion 0.5, SetHoveredPartId (Some Leftarm), SelectHoveredPart]" GoBack]
  by (simp add: run_def createSimpleStateMachine_def adjustExplosion_frame setHoveredPartId_def
      selectHoveredPart_def Let_def transitionTo_frame applyPartViewLayout_frame majorParts_def
      goBack_def
        modelOnly_frame [where h = "resetAllChildrenExcept None" and k = None]
        modelOnly_frame [where h = resetAllPartScales]
        modelOnly_frame [where h = resetAllPartPositions])

section \<open>The explosion factors\<close>

lemma funpow_update_frame:
  "state ((update ^^ n) s) = state s \<and>
   selectedMajorPart ((update ^^ n) s) = selectedMajorPart s \<and>
   globalExplosionTarget ((update ^^ n) s) = globalExplosionTarget s \<and>
   partExplosionTarget ((update ^^ n) s) = partExplosionTarget s \<and>
   (model ((update ^^ n) s) = None) = (model s = None)"
  by (induction n) (simp_all add: update_frame)

lemma funpow_update_globalExplosion:
  "model s \<noteq> None \<Longrightarrow>
   globalExplosion ((update ^^ n) s)
     = (smoothStep (globalExplosionTarget s) ^^ n) (globalExplosion s)"
  by (induction n) (auto simp: update_frame funpow_update_frame)

lemma funpow_update_partExplosion:
  "model s \<noteq> None \<Longrightarrow>
   partExplosion ((update ^^ n) s)
     = (smoothStep (partExplosionTarget s) ^^ n) (partExplosion s)"
  by (induction n) (auto simp: update_frame funpow_update_frame)

lemma smoothStep_bound:
  "\<bar>(smoothStep t ^^ n) c - t\<bar> \<le> max 0.001 (0.9 ^ n * \<bar>c - t\<bar>)"
proof (induction n)
  case 0
  show ?case by simp
next
  case (Suc n)
  let ?x = "(smoothStep t ^^ n) c"
  show ?case
  proof (cases "\<bar>?x - t\<bar> > 0.001")
    case True
    with Suc have b: "\<bar>?x - t\<bar> \<le> 0.9 ^ n * \<bar>c - t\<bar>"
      by (auto simp: max_def split: if_splits)
    have "smoothStep t ?x = ?x + (t - ?x) * 0.1"
      using True by (simp add: smoothStep_def)
    then have e: "smoothStep t ?x - t = 0.9 * (?x - t)"
      by argo
    have "\<bar>smoothStep t ?x - t\<bar> = \<bar>0.9 * (?x - t)\<bar>"
      by (simp only: e)
    also have "\<dots> = 0.9 * \<bar>?x - t\<bar>"
      unfolding abs_mult by simp
    also have "\<dots> \<le> 0.9 * (0.9 ^ n * \<bar>c - t\<bar>)"
      using b by simp
    finally have "\<bar>smoothStep t ?x - t\<bar> \<le> 0.9 ^ Suc n * \<bar>c - t\<bar>"
      by (simp only: power_Suc mult.assoc)
    then have "\<bar>(smoothStep t ^^ Suc n) c - t\<bar> \<le> 0.9 ^ Suc n * \<bar>c - t\<bar>"
      by (simp only: funpow.simps o_apply)
    then show ?thesis
      by (rule max.coboundedI2)
  next
    case False
    then have "smoothStep t ?x = ?x" by (simp add: smoothStep_def)
    then have "(smoothStep t ^^ Suc n) c = ?x" by simp
    moreover from False have "\<bar>?x - t\<bar> \<le> 0.001" by simp
    ultimately have "\<bar>(smoothStep t ^^ Suc n) c - t\<bar> \<le> 0.001" by (simp only:)
    then show ?thesis
      by (rule max.coboundedI1)
  qed
qed

lemma smoothStep_close:
  assumes "\<bar>c - t\<bar> \<le> d" "0.9 ^ k * d \<le> 0.001" "k \<le> n"
  shows "\<bar>(smoothStep t ^^ n) c - t\<bar> \<le> 0.001"
proof -
  have "(0.9::real) ^ n \<le> 0.9 ^ k"
    using assms(3) by (intro power_decreasing) simp_all
  then have "0.9 ^ n * \<bar>c - t\<bar> \<le> 0.9 ^ k * d"
    using assms(1) by (intro mult_mono) simp_all
  with assms(2) smoothStep_bound [where t = t and n = n and c = c] show ?thesis by simp
qed

lemma smoothStep_below: "c < t \<Longrightarrow> (smoothStep t ^^ n) c < t"
proof (induction n)
  case 0
  then show ?case by simp
next
  case (Suc n)
  then have "(smoothStep t ^^ n) c < t" by simp
  then have "smoothStep t ((smoothStep t ^^ n) c) < t"
    by (simp add: smoothStep_def) argo
  then show ?case by simp
qed

text \<open>
  The thresholds of \<open>adjustExplosion\<close>. From \<open>Assembled\<close>, an \<open>adjustExplosion\<close> that leaves
  the global target above 0.1 moves to \<open>Exploded\<close>; from \<open>Exploded\<close>, one that leaves it below
  0.05 moves to \<open>Assembled\<close>.
  With a model loaded, \<open>adjustExplosion(0.2)\<close> on the fresh machine gives \<open>Exploded\<close> with
  target 0.2, and after 51 or more frame updates the state is still \<open>Exploded\<close> and the
  current global factor is within 0.001 of 0.2.
\<close>

theorem threshold_transitions:
  "(state s = Assembled \<and> globalExplosionTarget (adjustExplosion delta s) > 0.1
      \<longrightarrow> state (adjustExplosion delta s) = Exploded)
   \<and> (state s = Exploded \<and> globalExplosionTarget (adjustExplosion delta s) < 0.05
      \<longrightarrow> state (adjustExplosion delta s) = Assembled)
   \<and> (let s1 = adjustExplosion 0.2 (init m createSimpleStateMachine) in
        state s1 = Exploded \<and> globalExplosionTarget s1 = 0.2 \<and>
        (51 \<le> n \<longrightarrow> state ((update ^^ n) s1) = Exploded
                   \<and> \<bar>globalExplosion ((update ^^ n) s1) - 0.2\<bar> \<le> 0.001))"
proof -
  let ?s1 = "adjustExplosion 0.2 (init m createSimpleStateMachine)"
  have s1: "state ?s1 = Exploded" "globalExplosionTarget ?s1 = 0.2" "globalExplosion ?s1 = 0"
    "model ?s1 \<noteq> None"
    by (simp_all add: adjustExplosion_frame init_def createSimpleStateMachine_def)
  have close: "\<bar>globalExplosion ((update ^^ n) ?s1) - 0.2\<bar> \<le> 0.001" if "51 \<le> n"
  proof -
    have "\<bar>(smoothStep 0.2 ^^ n) 0 - 0.2\<bar> \<le> 0.001"
      by (rule smoothStep_close [where d = "0.2" and k = 51])
        (use that in \<open>simp_all add: power_divide\<close>)
    moreover have "globalExplosion ((update ^^ n) ?s1) = (smoothStep 0.2 ^^ n) 0"
      using funpow_update_globalExplosion [OF s1(4), of n] unfolding s1(2) s1(3) .
    ultimately show ?thesis by (simp only:)
  qed
  have still: "state ((update ^^ n) ?s1) = Exploded"
    by (simp only: funpow_update_frame s1(1))
  have up: "state s = Assembled \<and> globalExplosionTarget (adjustExplosion delta s) > 0.1
      \<longrightarrow> state (adjustExplosion delta s) = Exploded"
    by (auto simp: adjustExplosion_frame)
  have dn: "state s = Exploded \<and> globalExplosionTarget (adjustExplosion delta s) < 0.05
      \<longrightarrow> state (adjustExplosion delta s) = Assembled"
    by (auto simp: adjustExplosion_frame)
  show ?thesis
    unfolding Let_def using up dn s1(1) s1(2) still close by blast
qed

theorem threshold_transitions_witness:
  "state (adjustExplosion 0.2 createSimpleStateMachine) = Exploded
   \<and> state (adjustExplosion (- 0.17) (adjustExplosion 0.2 createSimpleStateMachine)) = Assembled
   \<and> \<bar>globalExplosion ((update ^^ 51)
          (adjustExplosion 0.2 (init \<lparr>parts = (\<lambda>_. None)\<rparr> createSimpleStateMachine))) - 0.2\<bar>
        \<le> 0.001"
  using threshold_transitions [of createSimpleStateMachine "0.2" "\<lparr>parts = (\<lambda>_. None)\<rparr>" 51]
    threshold_transitions [of "adjustExplosion 0.2 createSimpleStateMachine" "- 0.17"
      "\<lparr>parts = (\<lambda>_. None)\<rparr>" 51]
  by (simp add: Let_def adjustExplosion_frame createSimpleStateMachine_def)

subsection \<open>Going back from the exploded view\<close>

text \<open>
  \<open>goBack\<close> in \<open>Exploded\<close> only writes the global target; the source notes there that the
  state will switch in \<open>update\<close>, but \<open>update\<close> never writes the state.
\<close>

lemma goBack_Exploded:
  "state s = Exploded \<Longrightarrow> goBack s = s\<lparr>globalExplosionTarget := 0\<rparr>"
  by (simp add: goBack_def)

lemma goBack_Exploded_stays:
  assumes "state s = Exploded"
  shows "state ((update ^^ n) (goBack s)) = Exploded"
    and "globalExplosionTarget ((update ^^ n) (goBack s)) = 0"
  using assms by (simp_all add: funpow_update_frame goBack_Exploded)

text \<open>
  Claim C7. In \<open>Exploded\<close>, a call that lowers the global target below 0.05 is to move the
  state back to \<open>Assembled\<close>. \<open>goBack\<close> is such a call: after \<open>init\<close>, \<open>adjustExplosion(0.2)\<close>
  and \<open>goBack\<close> the target is 0, yet the state is \<open>Exploded\<close>, and it is still \<open>Exploded\<close> after
  any number of frame updates.
\<close>

theorem go_back_from_exploded:
  "state (run [Init \<lparr>parts = (\<lambda>_. None)\<rparr>, AdjustExplosion 0.2] createSimpleStateMachine)
     = Exploded
   \<and> globalExplosionTarget
       (run [Init \<lparr>parts = (\<lambda>_. None)\<rparr>, AdjustExplosion 0.2, GoBack] createSimpleStateMachine)
     = 0
   \<and> state (run [Init \<lparr>parts = (\<lambda>_. None)\<rparr>, AdjustExplosion 0.2, GoBack]
       createSimpleStateMachine) = Exploded
   \<and> state ((update ^^ n)
       (run [Init \<lparr>parts = (\<lambda>_. None)\<rparr>, AdjustExplosion 0.2, GoBack]
         createSimpleStateMachine)) = Exploded"
proof -
  let ?s = "run [Init \<lparr>parts = (\<lambda>_. None)\<rparr>, AdjustExplosion 0.2] createSimpleStateMachine"
  have s: "state ?s = Exploded"
    by (simp add: run_def adjustExplosion_frame init_def createSimpleStateMachine_def)
  have r: "run [Init \<lparr>parts = (\<lambda>_. None)\<rparr>, AdjustExplosion 0.2, GoBack]
      createSimpleStateMachine = goBack ?s"
    by (simp add: run_def)
  show ?thesis
    unfolding r using s goBack_Exploded_stays [OF s, of n] goBack_Exploded_stays [OF s, of 0]
    by simp
qed

section \<open>The ring layout\<close>

lemma vec_sel: "vx (vec a b c) = a" "vy (vec a b c) = b" "vz (vec a b c) = c"
  by (simp_all add: vec_def)

lemma chord: "(cos a - cos b) * (cos a - cos b) + (sin a - sin b) * (sin a - sin b)
                = 2 - 2 * cos (a - b)" for a b :: real
proof -
  have "(cos a - cos b) * (cos a - cos b) + (sin a - sin b) * (sin a - sin b)
      = ((cos a)\<^sup>2 + (sin a)\<^sup>2) + ((cos b)\<^sup>2 + (sin b)\<^sup>2)
          - 2 * (cos a * cos b + sin a * sin b)"
    by (simp add: power2_eq_square algebra_simps)
  also have "\<dots> = 2 - 2 * cos (a - b)"
    by (simp add: cos_diff)
  finally show ?thesis .
qed

lemma subRingPosition_angle:
  "subRingPosition i = vec (cos (slotAngle i) * 4) (sin (slotAngle i) * 4) (- 2)"
  by (simp add: subRingPosition_def slotAngle_def Let_def subRingDistance_def subRingZ_def)

lemma slot_distance_sq:
  "distanceTo (subRingPosition i) (subRingPosition j)
     = sqrt (16 * (2 - 2 * cos (slotAngle i - slotAngle j)))"
proof -
  let ?ci = "cos (slotAngle i)" and ?cj = "cos (slotAngle j)"
  let ?si = "sin (slotAngle i)" and ?sj = "sin (slotAngle j)"
  have "(?ci * 4 - ?cj * 4) * (?ci * 4 - ?cj * 4) + (?si * 4 - ?sj * 4) * (?si * 4 - ?sj * 4)
          + (- 2 - - 2) * (- 2 - - 2)
      = 16 * ((?ci - ?cj) * (?ci - ?cj) + (?si - ?sj) * (?si - ?sj))"
    by algebra
  also have "\<dots> = 16 * (2 - 2 * cos (slotAngle i - slotAngle j))"
    by (simp only: chord)
  finally show ?thesis
    by (simp only: distanceTo_def subRingPosition_angle vec_sel)
qed

lemma slot_spacing:
  assumes "i < 7"
  shows "distanceTo (subRingPosition i) (subRingPosition ((i + 1) mod 7))
           = sqrt (16 * (2 - 2 * cos (2 * pi / 7)))"
proof (cases "i = 6")
  case True
  have "slotAngle 6 - slotAngle 0 = 2 * pi - 2 * pi / 7"
    by (simp add: slotAngle_def)
  then have "cos (slotAngle 6 - slotAngle 0) = cos (2 * pi / 7)"
    by (simp only: cos_2pi_minus)
  moreover have "(i + 1) mod 7 = 0" using True by simp
  ultimately show ?thesis
    using True by (simp only: slot_distance_sq)
next
  case False
  with assms have m: "(i + 1) mod 7 = i + 1" by simp
  have "slotAngle i - slotAngle (i + 1) = - (2 * pi / 7)"
    by (simp add: slotAngle_def algebra_simps)
  then have "cos (slotAngle i - slotAngle (i + 1)) = cos (2 * pi / 7)"
    by (simp only: cos_minus)
  then show ?thesis
    by (simp only: m slot_distance_sq)
qed

lemma slot_on_circle:
  "distanceTo (subRingPosition i) (vec 0 0 (- 2)) = 4"
proof -
  let ?c = "cos (slotAngle i)" and ?s = "sin (slotAngle i)"
  have "(?c * 4 - 0) * (?c * 4 - 0) + (?s * 4 - 0) * (?s * 4 - 0) + (- 2 - - 2) * (- 2 - - 2)
      = 16 * (?s\<^sup>2 + ?c\<^sup>2)"
    by algebra
  also have "\<dots> = 4\<^sup>2"
    by (simp only: sin_cos_squared_add) simp
  finally have "distanceTo (subRingPosition i) (vec 0 0 (- 2)) = sqrt (4\<^sup>2)"
    by (simp only: distanceTo_def subRingPosition_angle vec_sel)
  then show ?thesis by simp
qed

lemma slot_zero: "subRingPosition 0 = vec 0 (- 4) (- 2)"
  by (simp add: subRingPosition_def Let_def subRingDistance_def subRingZ_def)

lemma slot_three_higher: "vy (subRingPosition 0) < vy (subRingPosition 3)"
proof -
  have "slotAngle 3 = 5 * pi / 14" by (simp add: slotAngle_def)
  moreover have "0 < sin (5 * pi / 14)"
    by (intro sin_gt_zero) (simp_all add: pi_gt_zero)
  ultimately have "0 < sin (slotAngle 3)" by (simp only:)
  then have "- 4 < sin (slotAngle 3) * 4" by simp
  moreover have "vy (subRingPosition 0) = - 4" by (simp add: slot_zero vec_sel)
  moreover have "vy (subRingPosition 3) = sin (slotAngle 3) * 4"
    by (simp only: subRingPosition_angle vec_sel)
  ultimately show ?thesis by (simp only:)
qed


lemma elemAt_subRingFixedPositions:
  "k < 7 \<Longrightarrow> elemAt subRingFixedPositions (int k) = Some (subRingPosition k)"
  by (simp add: elemAt_def subRingFixedPositions_def)

lemma assignSubRing_other:
  "p \<noteq> fst e \<Longrightarrow>
   transitionTargets (assignSubRing sel e s) p = transitionTargets s p \<and>
   transitionScales (assignSubRing sel e s) p = transitionScales s p"
  by (simp add: assignSubRing_def Let_def split: option.splits)

lemma fold_assignSubRing_other:
  "p \<notin> fst ` set es \<Longrightarrow>
   transitionTargets (fold (assignSubRing sel) es s) p = transitionTargets s p \<and>
   transitionScales (fold (assignSubRing sel) es s) p = transitionScales s p"
  by (induction es arbitrary: s) (simp_all add: assignSubRing_other)

lemma fold_assignSubRing_selected:
  "transitionTargets (fold (assignSubRing (Some p)) es s) p = transitionTargets s p \<and>
   transitionScales (fold (assignSubRing (Some p)) es s) p = transitionScales s p"
  by (induction es arbitrary: s) (simp_all add: assignSubRing_def Let_def split: option.splits)

lemma assignSubRing_hit:
  "Some p \<noteq> sel \<Longrightarrow> k < 7 \<Longrightarrow>
   transitionTargets (assignSubRing sel (p, k) s) p
     = Some (vadd (subRingPosition k) (subRingOffset p)) \<and>
   transitionScales (assignSubRing sel (p, k) s) p = Some 0.7"
  by (simp add: assignSubRing_def Let_def elemAt_subRingFixedPositions vadd_def subRingOffset_def)

lemma fold_assignSubRing_hit:
  "distinct (map fst es) \<Longrightarrow> (p, k) \<in> set es \<Longrightarrow> Some p \<noteq> sel \<Longrightarrow> k < 7 \<Longrightarrow>
   transitionTargets (fold (assignSubRing sel) es s) p
     = Some (vadd (subRingPosition k) (subRingOffset p)) \<and>
   transitionScales (fold (assignSubRing sel) es s) p = Some 0.7"
proof (induction es arbitrary: s)
  case Nil
  then show ?case by simp
next
  case (Cons e es)
  show ?case
  proof (cases "e = (p, k)")
    case True
    with Cons.prems have "p \<notin> fst ` set es" by auto
    then show ?thesis
      using True Cons.prems by (simp add: fold_assignSubRing_other assignSubRing_hit)
  next
    case False
    with Cons.prems have "(p, k) \<in> set es" "distinct (map fst es)" by auto
    then show ?thesis
      using Cons.IH Cons.prems by simp
  qed
qed

lemma major_entry:
  "p \<in> set majorParts \<Longrightarrow>
   (p, nat (slotIndex p)) \<in> set (zip majorParts [0..<length majorParts]) \<and> nat (slotIndex p) < 7"
  by (auto simp: zip_majorParts slotIndex_def indexOf_def majorParts_def)

lemma layout_secondary:
  assumes "p \<in> set majorParts" "Some p \<noteq> sel"
  shows "transitionTargets (calculateTransitionTargets sel s) p = Some (secondaryRingTarget p) \<and>
         transitionScales (calculateTransitionTargets sel s) p = Some 0.7"
proof -
  have d: "distinct (map fst (zip majorParts [0..<length majorParts]))"
    by (simp add: zip_majorParts)
  from major_entry [OF assms(1)]
  have e: "(p, nat (slotIndex p)) \<in> set (zip majorParts [0..<length majorParts])"
    and k: "nat (slotIndex p) < 7" by simp_all
  note h = fold_assignSubRing_hit [OF d e assms(2) k]
  show ?thesis
    by (simp add: calculateTransitionTargets_def Let_def secondaryRingTarget_def h
        subRingOffset_def)
qed

lemma layout_primary:
  "transitionTargets (calculateTransitionTargets (Some f) s) f = Some (primaryRingTarget f) \<and>
   transitionScales (calculateTransitionTargets (Some f) s) f = Some 1"
  by (simp add: calculateTransitionTargets_def Let_def fold_assignSubRing_selected
        updateSubRingVisibility_def primaryRingTarget_def vadd_def)

lemma layout_untracked:
  "p \<notin> set majorParts \<Longrightarrow> Some p \<noteq> sel \<Longrightarrow>
   transitionTargets (calculateTransitionTargets sel s) p = None \<and>
   transitionScales (calculateTransitionTargets sel s) p = None"
proof -
  assume a: "p \<notin> set majorParts" "Some p \<noteq> sel"
  then have "p \<notin> fst ` set (zip majorParts [0..<length majorParts])"
    by (auto simp: zip_majorParts majorParts_def)
  then show ?thesis
    using a by (auto simp: calculateTransitionTargets_def Let_def fold_assignSubRing_other
        updateSubRingVisibility_def split: option.splits)
qed

text \<open>
  Slot stability. Whatever part is focused, a major part that is not the focused one gets
  the target of the slot whose index is its position in the major-parts list, plus its
  sub-ring offset, at scale 0.7; the focused part gets the primary-ring centre plus its
  main-ring offset at scale 1. Slot \<open>i\<close> lies at angle \<open>-\<pi>/2 + i * 2\<pi>/7\<close> on the circle of
  radius 4 around \<open>(0, 0, -2)\<close>, neighbouring slots (cyclically) are equally far apart, and
  slot 0 is the point \<open>(0, -4, -2)\<close>.
\<close>

theorem slot_stability:
  assumes "p \<in> set majorParts" "focused \<noteq> p" "focused' \<noteq> p"
  shows "transitionTargets (calculateTransitionTargets (Some focused) s) p
           = Some (secondaryRingTarget p)
       \<and> transitionTargets (calculateTransitionTargets (Some focused') s') p
           = Some (secondaryRingTarget p)
       \<and> transitionScales (calculateTransitionTargets (Some focused) s) p = Some 0.7
       \<and> transitionTargets (calculateTransitionTargets (Some focused) s) focused
           = Some (primaryRingTarget focused)
       \<and> transitionScales (calculateTransitionTargets (Some focused) s) focused = Some 1
       \<and> elemAt subRingFixedPositions (slotIndex p) = Some (subRingPosition (nat (slotIndex p)))
       \<and> subRingPosition i = vec (cos (slotAngle i) * 4) (sin (slotAngle i) * 4) (- 2)
       \<and> distanceTo (subRingPosition i) (vec 0 0 (- 2)) = 4
       \<and> (i < 7 \<longrightarrow> distanceTo (subRingPosition i) (subRingPosition ((i + 1) mod 7))
                      = distanceTo (subRingPosition 0) (subRingPosition 1))
       \<and> subRingPosition 0 = vec 0 (- 4) (- 2)"
proof -
  have a: "Some p \<noteq> Some focused" "Some p \<noteq> Some focused'"
    using assms by simp_all
  have e: "elemAt subRingFixedPositions (slotIndex p) = Some (subRingPosition (nat (slotIndex p)))"
    using elemAt_subRingFixedPositions [of "nat (slotIndex p)"] major_entry [OF assms(1)]
      indexOf_majorParts [OF assms(1)]
    by (simp add: slotIndex_def)
  have sp: "distanceTo (subRingPosition i) (subRingPosition ((i + 1) mod 7))
              = distanceTo (subRingPosition 0) (subRingPosition 1)" if "i < 7"
    using slot_spacing [OF that] slot_spacing [of 0] by simp
  show ?thesis
    using layout_secondary [OF assms(1) a(1), of s] layout_secondary [OF assms(1) a(2), of s']
      layout_primary [of focused s] e sp subRingPosition_angle [of i] slot_on_circle [of i]
      slot_zero
    by blast
qed

theorem slot_stability_witness:
  "transitionTargets (calculateTransitionTargets (Some Head) createSimpleStateMachine) Leftarm
     = transitionTargets (calculateTransitionTargets (Some Rightleg) createSimpleStateMachine) Leftarm
   \<and> slotIndex Leftarm = 3
   \<and> transitionTargets (calculateTransitionTargets (Some Head) createSimpleStateMachine) Leftarm
     = Some (vadd (subRingPosition 3) (vec (- 1) (- 2.2) 1.3))
   \<and> transitionTargets (calculateTransitionTargets (Some Head) createSimpleStateMachine) Head
     = Some (vec (- 0.1) (- 1.3) 1)
   \<and> distanceTo (subRingPosition 6) (subRingPosition 0)
     = distanceTo (subRingPosition 0) (subRingPosition 1)"
proof -
  have h: "Leftarm \<in> set majorParts" "Head \<noteq> Leftarm" "Rightleg \<noteq> Leftarm"
    by (simp_all add: majorParts_def)
  note t = slot_stability [OF h, of createSimpleStateMachine createSimpleStateMachine 6]
  have i: "slotIndex Leftarm = 3"
    by (simp add: slotIndex_def indexOf_def majorParts_def)
  have sec: "secondaryRingTarget Leftarm = vadd (subRingPosition 3) (vec (- 1) (- 2.2) 1.3)"
    by (simp add: secondaryRingTarget_def i)
  have pri: "primaryRingTarget Head = vec (- 0.1) (- 1.3) 1"
    by (simp add: primaryRingTarget_def vadd_def mainRingCenter_def vec_def)
  from t have "(6::nat) < 7 \<longrightarrow> distanceTo (subRingPosition 6) (subRingPosition ((6 + 1) mod 7))
                      = distanceTo (subRingPosition 0) (subRingPosition 1)"
    by blast
  then have d: "distanceTo (subRingPosition 6) (subRingPosition 0)
                  = distanceTo (subRingPosition 0) (subRingPosition 1)"
    by simp
  from t have t1: "transitionTargets (calculateTransitionTargets (Some Head) createSimpleStateMachine) Leftarm
           = Some (secondaryRingTarget Leftarm)"
    and t2: "transitionTargets (calculateTransitionTargets (Some Rightleg) createSimpleStateMachine) Leftarm
           = Some (secondaryRingTarget Leftarm)"
    and t3: "transitionTargets (calculateTransitionTargets (Some Head) createSimpleStateMachine) Head
           = Some (primaryRingTarget Head)"
    by blast+
  show ?thesis
    by (simp only: t1 t2 t3 sec pri i d)
qed

text \<open>
  Claim C3. The slots are to start at the top of the ring, and the source says so where it
  sets the start angle. The table built by the constructor holds at index 0 the point
  \<open>(0, -4, -2)\<close>: its height is \<open>-subRingDistance\<close>, the lowest of the circle, below slot 3.
\<close>

theorem slot_start_at_bottom:
  "elemAt subRingFixedPositions 0 = Some (vec 0 (- 4) (- 2))
   \<and> vy (subRingPosition 0) = - subRingDistance
   \<and> vy (subRingPosition 0) < vy (subRingPosition 3)"
proof -
  have "elemAt subRingFixedPositions (int 0) = Some (subRingPosition 0)"
    by (rule elemAt_subRingFixedPositions) simp
  then have "elemAt subRingFixedPositions 0 = Some (vec 0 (- 4) (- 2))"
    by (simp add: slot_zero)
  moreover have "vy (subRingPosition 0) = - subRingDistance"
    by (simp add: slot_zero vec_sel subRingDistance_def)
  ultimately show ?thesis
    using slot_three_higher by blast
qed

section \<open>Selecting a part and going back\<close>

text \<open>
  Claim C4. In a reachable state whose hovered part is a major part, with the global factor
  above 0.1 and the state \<open>Exploded\<close> or \<open>Assembled\<close>, \<open>selectHoveredPart\<close> returns true and
  leaves the state \<open>PartView\<close> with that part selected, the global target 1 and the part
  factor and its target 0. When a model is loaded it also computes the ring layout: the
  selected part is aimed at the primary ring at scale 1, every other major part at its slot
  at scale 0.7, and the transition is started.
\<close>

theorem selection_transition:
  assumes "reachable s" "hoveredPart s = Some p" "p \<in> set majorParts"
    "globalExplosion s > 0.1" "state s = Exploded \<or> state s = Assembled"
  shows "fst (selectHoveredPart s) = True
       \<and> state (snd (selectHoveredPart s)) = PartView
       \<and> selectedMajorPart (snd (selectHoveredPart s)) = Some p
       \<and> globalExplosionTarget (snd (selectHoveredPart s)) = 1
       \<and> partExplosion (snd (selectHoveredPart s)) = 0
       \<and> partExplosionTarget (snd (selectHoveredPart s)) = 0
       \<and> (model s \<noteq> None \<longrightarrow>
            isTransitioning (snd (selectHoveredPart s))
            \<and> transitionTargets (snd (selectHoveredPart s)) p = Some (primaryRingTarget p)
            \<and> transitionScales (snd (selectHoveredPart s)) p = Some 1
            \<and> (\<forall>q \<in> set majorParts. q \<noteq> p \<longrightarrow>
                  transitionTargets (snd (selectHoveredPart s)) q = Some (secondaryRingTarget q)
                  \<and> transitionScales (snd (selectHoveredPart s)) q = Some 0.7))"
proof -
  from assms(1) have "factorsClamped s" using reachable_invariants by blast
  then have le: "globalExplosionTarget s \<le> 1" by (simp add: factorsClamped_def inUnit_def)
  let ?s1 = "s\<lparr>selectedMajorPart := Some p,
                currentPartIndex := indexOf majorParts p,
                partExplosionTarget := 0,
                partExplosion := 0,
                globalExplosion := max (globalExplosion s) 0.5,
                globalExplosionTarget := max (globalExplosionTarget s) 1\<rparr>"
  let ?s2 = "transitionTo PartView ?s1"
  have r: "selectHoveredPart s = (True, applyPartViewLayout ?s2)"
    using assms by (simp add: selectHoveredPart_def Let_def)
  have basic: "state (applyPartViewLayout ?s2) = PartView"
    "selectedMajorPart (applyPartViewLayout ?s2) = Some p"
    "globalExplosionTarget (applyPartViewLayout ?s2) = 1"
    "partExplosion (applyPartViewLayout ?s2) = 0"
    "partExplosionTarget (applyPartViewLayout ?s2) = 0"
    using le by (simp_all add: applyPartViewLayout_frame transitionTo_frame)
  have lay: "applyPartViewLayout ?s2 = (calculateTransitionTargets (Some p) ?s2)\<lparr>isTransitioning := True\<rparr>"
    if "model s \<noteq> None"
    using that by (auto simp: applyPartViewLayout_def transitionTo_frame)
  have layout: "isTransitioning (applyPartViewLayout ?s2)
            \<and> transitionTargets (applyPartViewLayout ?s2) p = Some (primaryRingTarget p)
            \<and> transitionScales (applyPartViewLayout ?s2) p = Some 1
            \<and> (\<forall>q \<in> set majorParts. q \<noteq> p \<longrightarrow>
                  transitionTargets (applyPartViewLayout ?s2) q = Some (secondaryRingTarget q)
                  \<and> transitionScales (applyPartViewLayout ?s2) q = Some 0.7)"
    if "model s \<noteq> None"
    unfolding lay [OF that] by (simp add: layout_primary layout_secondary)
  show ?thesis
    unfolding r using basic layout by simp
qed

theorem selection_transition_witness:
  "reachable (run [Init \<lparr>parts = (\<lambda>_. None)\<rparr>, AdjustExplosion 1, Update, Update,
                   SetHoveredPartId (Some Leftarm)] createSimpleStateMachine)
   \<and> state (run [Init \<lparr>parts = (\<lambda>_. None)\<rparr>, AdjustExplosion 1, Update, Update,
                   SetHoveredPartId (Some Leftarm)] createSimpleStateMachine) = Exploded
   \<and> globalExplosion (run [Init \<lparr>parts = (\<lambda>_. None)\<rparr>, AdjustExplosion 1, Update, Update,
                   SetHoveredPartId (Some Leftarm)] createSimpleStateMachine) = 0.19
   \<and> state (snd (selectHoveredPart
         (run [Init \<lparr>parts = (\<lambda>_. None)\<rparr>, AdjustExplosion 1, Update, Update,
               SetHoveredPartId (Some Leftarm)] createSimpleStateMachine))) = PartView
   \<and> selectedMajorPart (snd (selectHoveredPart
         (run [Init \<lparr>parts = (\<lambda>_. None)\<rparr>, AdjustExplosion 1, Update, Update,
               SetHoveredPartId (Some Leftarm)] createSimpleStateMachine))) = Some Leftarm
   \<and> transitionTargets (snd (selectHoveredPart
         (run [Init \<lparr>parts = (\<lambda>_. None)\<rparr>, AdjustExplosion 1, Update, Update,
               SetHoveredPartId (Some Leftarm)] createSimpleStateMachine))) Leftarm
       = Some (vec (- 0.2) 0 1)
   \<and> transitionScales (snd (selectHoveredPart
         (run [Init \<lparr>parts = (\<lambda>_. None)\<rparr>, AdjustExplosion 1, Update, Update,
               SetHoveredPartId (Some Leftarm)] createSimpleStateMachine))) Head
       = Some 0.7"
proof -
  let ?s = "run [Init \<lparr>parts = (\<lambda>_. None)\<rparr>, AdjustExplosion 1, Update, Update,
                 SetHoveredPartId (Some Leftarm)] createSimpleStateMachine"
  have re: "reachable ?s"
    by (intro reachable_run reachable.start)
  have f: "hoveredPart ?s = Some Leftarm" "state ?s = Exploded" "globalExplosion ?s = 0.19"
    "model ?s \<noteq> None"
    by (simp_all add: run_def init_def createSimpleStateMachine_def adjustExplosion_frame
        update_frame setHoveredPartId_def smoothStep_def)
  have m: "Leftarm \<in> set majorParts" "Head \<in> set majorParts" "Head \<noteq> Leftarm"
    by (simp_all add: majorParts_def)
  have g: "globalExplosion ?s > 0.1" by (simp only: f(3)) simp
  note t = selection_transition [OF re f(1) m(1) g disjI1 [OF f(2)]]
  have pr: "primaryRingTarget Leftarm = vec (- 0.2) 0 1"
    by (simp add: primaryRingTarget_def vadd_def mainRingCenter_def vec_def)
  from t f(4) m have t1: "state (snd (selectHoveredPart ?s)) = PartView"
    and t2: "selectedMajorPart (snd (selectHoveredPart ?s)) = Some Leftarm"
    and t3: "transitionTargets (snd (selectHoveredPart ?s)) Leftarm = Some (primaryRingTarget Leftarm)"
    and t4: "transitionScales (snd (selectHoveredPart ?s)) Head = Some 0.7"
    by blast+
  show ?thesis
    using re f(2) f(3) t1 t2 t3 [unfolded pr] t4 by blast
qed

section \<open>Going back\<close>

lemma withConfig_parts:
  "parts (withConfig g q m) p = (if p = q then map_option g (parts m p) else parts m p)"
  by (simp add: withConfig_def split: option.splits)

lemma fold_withConfig_parts:
  "distinct qs \<Longrightarrow>
   parts (fold (\<lambda>q. withConfig (g q) q) qs m) p
     = (if p \<in> set qs then map_option (g p) (parts m p) else parts m p)"
  by (induction qs arbitrary: m) (auto simp: withConfig_parts)

lemma distinct_majorParts: "distinct majorParts"
  by (simp add: majorParts_def)

lemma fold_resetNodePosition_parts:
  "distinct qs \<Longrightarrow>
   parts (fold resetNodePosition qs m) p
     = (if p \<in> set qs then map_option resetConfigPosition (parts m p) else parts m p)"
proof -
  have "resetNodePosition = (\<lambda>q. withConfig ((\<lambda>_. resetConfigPosition) q) q)"
    by (simp add: fun_eq_iff resetNodePosition_def)
  then show "distinct qs \<Longrightarrow> ?thesis"
    using fold_withConfig_parts [where g = "\<lambda>_. resetConfigPosition"] by simp
qed

lemma fold_resetNodeScale_parts:
  "distinct qs \<Longrightarrow>
   parts (fold resetNodeScale qs m) p
     = (if p \<in> set qs then map_option resetConfigScale (parts m p) else parts m p)"
proof -
  have "resetNodeScale = (\<lambda>q. withConfig ((\<lambda>_. resetConfigScale) q) q)"
    by (simp add: fun_eq_iff resetNodeScale_def)
  then show "distinct qs \<Longrightarrow> ?thesis"
    using fold_withConfig_parts [where g = "\<lambda>_. resetConfigScale"] by simp
qed

lemma fold_explodeNode_parts:
  "distinct qs \<Longrightarrow>
   parts (fold (explodeNode factor) qs m) p
     = (if p \<in> set qs then map_option (explodeConfig factor p) (parts m p) else parts m p)"
proof -
  have "explodeNode factor = (\<lambda>q. withConfig (explodeConfig factor q) q)"
    by (simp add: fun_eq_iff explodeNode_def)
  then show "distinct qs \<Longrightarrow> ?thesis"
    using fold_withConfig_parts [where g = "explodeConfig factor"] by simp
qed

lemma major_not_child: "p \<in> set majorParts \<Longrightarrow> p \<notin> set (getChildParts q)"
  by (cases q) (auto simp: getChildParts_def majorParts_def)

lemma distinct_getChildParts: "distinct (getChildParts q)"
  by (cases q) (simp_all add: getChildParts_def)

lemma resetChildrenOf_major:
  "p \<in> set majorParts \<Longrightarrow> parts (resetChildrenOf k q m) p = parts m p"
  by (simp add: resetChildrenOf_def fold_resetNodePosition_parts distinct_getChildParts
        major_not_child)

lemma fold_resetChildrenOf_major:
  "p \<in> set majorParts \<Longrightarrow> parts (fold (resetChildrenOf k) qs m) p = parts m p"
  by (induction qs arbitrary: m) (simp_all add: resetChildrenOf_major)

text \<open>
  Claim C5. \<open>goBack\<close> in \<open>PartView\<close> leaves the state \<open>Assembled\<close> with no selected part, the
  part factor and its target 0 and the global target 0; every major part that the model
  binds to a node has that node's scale set to 1 and, with the rest position recorded with
  the node at load time, its position set to that rest position.
\<close>

theorem go_back_postcondition:
  assumes "state s = PartView"
  shows "state (goBack s) = Assembled
       \<and> selectedMajorPart (goBack s) = None
       \<and> partExplosion (goBack s) = 0
       \<and> partExplosionTarget (goBack s) = 0
       \<and> globalExplosionTarget (goBack s) = 0
       \<and> (\<forall>m p config nd.
             model s = Some m \<and> p \<in> set majorParts \<and> parts m p = Some config
               \<and> node config = Some nd \<longrightarrow>
             (\<exists>m' config' nd'.
                model (goBack s) = Some m' \<and> parts m' p = Some config' \<and> node config' = Some nd'
                \<and> scale nd' = setScalar 1
                \<and> (\<forall>orig. originalPosition config = Some orig \<longrightarrow> position nd' = orig)))"
proof -
  have basic: "state (goBack s) = Assembled" "selectedMajorPart (goBack s) = None"
    "partExplosion (goBack s) = 0" "partExplosionTarget (goBack s) = 0"
    "globalExplosionTarget (goBack s) = 0"
    using assms
    by (simp_all add: goBack_def Let_def transitionTo_frame
        modelOnly_frame [where h = "resetAllChildrenExcept None" and k = None]
        modelOnly_frame [where h = resetAllPartScales]
        modelOnly_frame [where h = resetAllPartPositions])
  have nodes: "\<exists>m' config' nd'.
                model (goBack s) = Some m' \<and> parts m' p = Some config' \<and> node config' = Some nd'
                \<and> scale nd' = setScalar 1
                \<and> (\<forall>orig. originalPosition config = Some orig \<longrightarrow> position nd' = orig)"
    if h: "model s = Some m" "p \<in> set majorParts" "parts m p = Some config" "node config = Some nd"
    for m p config nd
  proof -
    let ?m' = "fold resetNodePosition majorParts
                 (fold resetNodeScale majorParts (fold (resetChildrenOf None) majorParts m))"
    have m': "model (goBack s) = Some ?m'"
      using assms h(1)
      by (simp add: goBack_def Let_def transitionTo_frame resetAllChildrenExcept_def
          resetAllPartScales_def resetAllPartPositions_def)
    have "parts ?m' p = Some (resetConfigPosition (resetConfigScale config))"
      using h(2) h(3)
      by (simp add: fold_resetNodePosition_parts fold_resetNodeScale_parts
          fold_resetChildrenOf_major distinct_majorParts)
    moreover have "\<exists>nd'. node (resetConfigPosition (resetConfigScale config)) = Some nd'
        \<and> scale nd' = setScalar 1
        \<and> (\<forall>orig. originalPosition config = Some orig \<longrightarrow> position nd' = orig)"
      using h(4)
      by (cases "originalPosition config")
        (simp_all add: resetConfigPosition_def resetConfigScale_def)
    ultimately show ?thesis using m' by blast
  qed
  show ?thesis
    using basic nodes by blast
qed

theorem go_back_postcondition_witness:
  "state (goBack (createSimpleStateMachine
       \<lparr>model := Some \<lparr>parts = (\<lambda>_. None)(Leftarm \<mapsto>
            \<lparr>node = Some \<lparr>position = vec 9 9 9, rotation = vec 0 0 0, scale = setScalar 0.7\<rparr>,
             originalPosition = Some (vec 1 2 3)\<rparr>)\<rparr>,
        state := PartView, selectedMajorPart := Some Leftarm\<rparr>)) = Assembled
   \<and> selectedMajorPart (goBack (createSimpleStateMachine
       \<lparr>model := Some \<lparr>parts = (\<lambda>_. None)(Leftarm \<mapsto>
            \<lparr>node = Some \<lparr>position = vec 9 9 9, rotation = vec 0 0 0, scale = setScalar 0.7\<rparr>,
             originalPosition = Some (vec 1 2 3)\<rparr>)\<rparr>,
        state := PartView, selectedMajorPart := Some Leftarm\<rparr>)) = None
   \<and> (\<exists>m' config' nd'.
         model (goBack (createSimpleStateMachine
           \<lparr>model := Some \<lparr>parts = (\<lambda>_. None)(Leftarm \<mapsto>
              \<lparr>node = Some \<lparr>position = vec 9 9 9, rotation = vec 0 0 0, scale = setScalar 0.7\<rparr>,
               originalPosition = Some (vec 1 2 3)\<rparr>)\<rparr>,
            state := PartView, selectedMajorPart := Some Leftarm\<rparr>)) = Some m'
         \<and> parts m' Leftarm = Some config' \<and> node config' = Some nd'
         \<and> scale nd' = vec 1 1 1 \<and> position nd' = vec 1 2 3)"
proof -
  let ?nd = "\<lparr>position = vec 9 9 9, rotation = vec 0 0 0, scale = setScalar 0.7\<rparr>"
  let ?config = "\<lparr>node = Some ?nd, originalPosition = Some (vec 1 2 3)\<rparr>"
  let ?m = "\<lparr>parts = (\<lambda>_. None)(Leftarm \<mapsto> ?config)\<rparr>"
  let ?s = "createSimpleStateMachine
       \<lparr>model := Some ?m, state := PartView, selectedMajorPart := Some Leftarm\<rparr>"
  have h: "state ?s = PartView" by simp
  note t = go_back_postcondition [OF h]
  have pre: "model ?s = Some ?m \<and> Leftarm \<in> set majorParts \<and> parts ?m Leftarm = Some ?config
               \<and> node ?config = Some ?nd"
    by (simp add: majorParts_def)
  from t have "\<forall>m p config nd.
             model ?s = Some m \<and> p \<in> set majorParts \<and> parts m p = Some config
               \<and> node config = Some nd \<longrightarrow>
             (\<exists>m' config' nd'.
                model (goBack ?s) = Some m' \<and> parts m' p = Some config' \<and> node config' = Some nd'
                \<and> scale nd' = setScalar 1
                \<and> (\<forall>orig. originalPosition config = Some orig \<longrightarrow> position nd' = orig))"
    by blast
  with pre have "\<exists>m' config' nd'.
                model (goBack ?s) = Some m' \<and> parts m' Leftarm = Some config' \<and> node config' = Some nd'
                \<and> scale nd' = setScalar 1
                \<and> (\<forall>orig. originalPosition ?config = Some orig \<longrightarrow> position nd' = orig)"
    by blast
  then have "\<exists>m' config' nd'.
                model (goBack ?s) = Some m' \<and> parts m' Leftarm = Some config' \<and> node config' = Some nd'
                \<and> scale nd' = vec 1 1 1 \<and> position nd' = vec 1 2 3"
    by (simp add: setScalar_def)
  with t show ?thesis by blast
qed

section \<open>Cycling through the major parts\<close>

lemma navigateInternal_PartView:
  "state s = PartView \<Longrightarrow>
   navigateInternal d s
     = selectPart (elemAt majorParts (jsRem (currentPartIndex s + d + 7) 7))
         (s\<lparr>currentPartIndex := jsRem (currentPartIndex s + d + 7) 7\<rparr>)"
  by (simp add: navigateInternal_def Let_def length_majorParts)

lemma navigateInternal_Exploded:
  "state s = Exploded \<Longrightarrow>
   navigateInternal d s
     = s\<lparr>currentPartIndex := jsRem (currentPartIndex s + d + 7) 7,
         hoveredPart := elemAt majorParts (jsRem (currentPartIndex s + d + 7) 7)\<rparr>"
  by (simp add: navigateInternal_def Let_def length_majorParts)

lemma navigateInternal_Assembled:
  "state s = Assembled \<Longrightarrow> navigateInternal d s = s"
  by (simp add: navigateInternal_def)

lemma navigateInternal_index:
  assumes "state s = PartView \<or> state s = Exploded" "0 \<le> currentPartIndex s"
    "currentPartIndex s < 7" "d = 1 \<or> d = - 1"
  shows "currentPartIndex (navigateInternal d s) = (currentPartIndex s + d) mod 7"
proof -
  let ?i = "jsRem (currentPartIndex s + d + 7) 7"
  have j: "?i = (currentPartIndex s + d) mod 7" "0 \<le> ?i" "?i < 7"
    using assms jsRem_mod [of "currentPartIndex s" d] jsRem_range [of "currentPartIndex s" d]
    by auto
  then obtain p where p: "elemAt majorParts ?i = Some p" "indexOf majorParts p = ?i"
    using elemAt_majorParts by blast
  from assms(1) show ?thesis
  proof
    assume "state s = PartView"
    then show ?thesis
      using p j(1) by (simp add: navigateInternal_PartView selectPart_frame indexOfMajor_def)
  next
    assume "state s = Exploded"
    then show ?thesis
      using j(1) by (simp add: navigateInternal_Exploded)
  qed
qed

lemma navigateInternal_selected:
  assumes "state s = PartView" "0 \<le> currentPartIndex s" "currentPartIndex s < 7"
    "d = 1 \<or> d = - 1"
  shows "selectedMajorPart (navigateInternal d s)
           = elemAt majorParts ((currentPartIndex s + d) mod 7)"
  using assms jsRem_mod [of "currentPartIndex s" d]
  by (auto simp: navigateInternal_PartView selectPart_frame)

lemma funpow_navigate_right:
  assumes "state s = PartView" "0 \<le> currentPartIndex s" "currentPartIndex s < 7"
  shows "state ((navigateInternal 1 ^^ n) s) = PartView
       \<and> currentPartIndex ((navigateInternal 1 ^^ n) s) = (currentPartIndex s + int n) mod 7
       \<and> (0 < n \<longrightarrow> selectedMajorPart ((navigateInternal 1 ^^ n) s)
              = elemAt majorParts ((currentPartIndex s + int n) mod 7))"
proof (induction n)
  case 0
  then show ?case using assms by simp
next
  case (Suc n)
  let ?t = "(navigateInternal 1 ^^ n) s"
  from Suc have t: "state ?t = PartView" "currentPartIndex ?t = (currentPartIndex s + int n) mod 7"
    by simp_all
  then have r: "0 \<le> currentPartIndex ?t" "currentPartIndex ?t < 7" by simp_all
  have ar: "((currentPartIndex s + int n) mod 7 + 1) mod 7 = (currentPartIndex s + int (Suc n)) mod 7"
    by (simp add: mod_simps algebra_simps)
  have "currentPartIndex (navigateInternal 1 ?t) = (currentPartIndex ?t + 1) mod 7"
    by (rule navigateInternal_index [OF disjI1 [OF t(1)] r]) simp
  then have i: "currentPartIndex (navigateInternal 1 ?t) = (currentPartIndex s + int (Suc n)) mod 7"
    by (simp only: t(2) ar)
  have "selectedMajorPart (navigateInternal 1 ?t) = elemAt majorParts ((currentPartIndex ?t + 1) mod 7)"
    by (rule navigateInternal_selected [OF t(1) r]) simp
  then have sel: "selectedMajorPart (navigateInternal 1 ?t)
          = elemAt majorParts ((currentPartIndex s + int (Suc n)) mod 7)"
    by (simp only: t(2) ar)
  have st: "state (navigateInternal 1 ?t) = PartView"
    by (simp add: navigateInternal_frame t(1))
  show ?case
    using i sel st by simp
qed

text \<open>
  Claim C9 (amended). In \<open>PartView\<close> and in \<open>Exploded\<close> a cycle step moves the navigation
  index by one modulo 7. In \<open>PartView\<close> the step is \<open>selectPart\<close> on the part at the new
  index, so seven steps to the right bring back the index and the selected part. In
  \<open>Exploded\<close> the step changes only the index and the hovered part. In \<open>Assembled\<close> a cycle
  step does nothing. \<open>navigate\<close> is the same step under the names up and down.
\<close>

theorem cycling:
  assumes "reachable s"
  shows "(state s = PartView \<or> state s = Exploded \<longrightarrow>
            currentPartIndex (navigateLeftRight right s) = (currentPartIndex s + 1) mod 7
            \<and> currentPartIndex (navigateLeftRight left s) = (currentPartIndex s - 1) mod 7)
       \<and> (state s = PartView \<longrightarrow>
            navigateLeftRight right s
              = selectPart (elemAt majorParts ((currentPartIndex s + 1) mod 7))
                  (s\<lparr>currentPartIndex := (currentPartIndex s + 1) mod 7\<rparr>)
            \<and> navigateLeftRight left s
              = selectPart (elemAt majorParts ((currentPartIndex s - 1) mod 7))
                  (s\<lparr>currentPartIndex := (currentPartIndex s - 1) mod 7\<rparr>)
            \<and> state (navigateLeftRight right s) = PartView
            \<and> selectedMajorPart (navigateLeftRight right s)
                 = elemAt majorParts ((currentPartIndex s + 1) mod 7)
            \<and> selectedMajorPart ((navigateLeftRight right ^^ 7) s) = selectedMajorPart s
            \<and> currentPartIndex ((navigateLeftRight right ^^ 7) s) = currentPartIndex s)
       \<and> (state s = Exploded \<longrightarrow>
            navigateLeftRight right s
              = s\<lparr>currentPartIndex := (currentPartIndex s + 1) mod 7,
                  hoveredPart := elemAt majorParts ((currentPartIndex s + 1) mod 7)\<rparr>
            \<and> navigateLeftRight left s
              = s\<lparr>currentPartIndex := (currentPartIndex s - 1) mod 7,
                  hoveredPart := elemAt majorParts ((currentPartIndex s - 1) mod 7)\<rparr>)
       \<and> (state s = Assembled \<longrightarrow> navigateLeftRight right s = s \<and> navigateLeftRight left s = s)
       \<and> navigate down s = navigateLeftRight right s
       \<and> navigate up s = navigateLeftRight left s"
proof -
  from assms have inv: "viewStateInvariant s" "indexValid s"
    using reachable_invariants by blast+
  then have r: "0 \<le> currentPartIndex s" "currentPartIndex s < 7"
    by (simp_all add: indexValid_def length_majorParts)
  have j: "jsRem (currentPartIndex s + 1 + 7) 7 = (currentPartIndex s + 1) mod 7"
    "jsRem (currentPartIndex s + - 1 + 7) 7 = (currentPartIndex s - 1) mod 7"
    using jsRem_mod [of "currentPartIndex s" 1] jsRem_mod [of "currentPartIndex s" "- 1"] r
    by simp_all
  have nr: "navigateLeftRight right = navigateInternal 1"
    and nl: "navigateLeftRight left = navigateInternal (- 1)"
    by (simp_all add: fun_eq_iff navigateLeftRight_def)
  have idx: "currentPartIndex (navigateLeftRight right s) = (currentPartIndex s + 1) mod 7
            \<and> currentPartIndex (navigateLeftRight left s) = (currentPartIndex s - 1) mod 7"
    if "state s = PartView \<or> state s = Exploded"
    using navigateInternal_index [OF that r, of 1] navigateInternal_index [OF that r, of "- 1"]
    by (simp add: nr nl)
  have pv: "navigateLeftRight right s
              = selectPart (elemAt majorParts ((currentPartIndex s + 1) mod 7))
                  (s\<lparr>currentPartIndex := (currentPartIndex s + 1) mod 7\<rparr>)
            \<and> navigateLeftRight left s
              = selectPart (elemAt majorParts ((currentPartIndex s - 1) mod 7))
                  (s\<lparr>currentPartIndex := (currentPartIndex s - 1) mod 7\<rparr>)
            \<and> state (navigateLeftRight right s) = PartView
            \<and> selectedMajorPart (navigateLeftRight right s)
                 = elemAt majorParts ((currentPartIndex s + 1) mod 7)
            \<and> selectedMajorPart ((navigateLeftRight right ^^ 7) s) = selectedMajorPart s
            \<and> currentPartIndex ((navigateLeftRight right ^^ 7) s) = currentPartIndex s"
    if pvs: "state s = PartView"
  proof -
    from pvs inv obtain p where p: "selectedMajorPart s = Some p"
      by (auto simp: viewStateInvariant_def)
    with inv(2) have e: "elemAt majorParts (currentPartIndex s) = Some p"
      by (simp add: indexValid_def)
    have seven: "(currentPartIndex s + int 7) mod 7 = currentPartIndex s"
      using r by simp
    note f = funpow_navigate_right [OF pvs r, of 7]
    from f have "selectedMajorPart ((navigateInternal 1 ^^ 7) s)
        = elemAt majorParts ((currentPartIndex s + int 7) mod 7)"
      by simp
    then have s7: "selectedMajorPart ((navigateInternal 1 ^^ 7) s) = selectedMajorPart s"
      by (simp only: seven e p)
    from f have i7: "currentPartIndex ((navigateInternal 1 ^^ 7) s) = currentPartIndex s"
      by (simp only: seven)
    note pr = navigateInternal_PartView [OF pvs, of 1, unfolded j(1)]
    note pl = navigateInternal_PartView [OF pvs, of "- 1", unfolded j(2)]
    have st: "state (navigateInternal 1 s) = PartView"
      by (simp add: navigateInternal_frame pvs)
    have sel: "selectedMajorPart (navigateInternal 1 s)
                 = elemAt majorParts ((currentPartIndex s + 1) mod 7)"
      by (rule navigateInternal_selected [OF pvs r]) simp
    show ?thesis
      unfolding nr nl using pr pl st sel s7 i7 by blast
  qed
  have ex: "navigateLeftRight right s
              = s\<lparr>currentPartIndex := (currentPartIndex s + 1) mod 7,
                  hoveredPart := elemAt majorParts ((currentPartIndex s + 1) mod 7)\<rparr>
            \<and> navigateLeftRight left s
              = s\<lparr>currentPartIndex := (currentPartIndex s - 1) mod 7,
                  hoveredPart := elemAt majorParts ((currentPartIndex s - 1) mod 7)\<rparr>"
    if "state s = Exploded"
    unfolding nr nl
    using navigateInternal_Exploded [OF that, of 1, unfolded j(1)]
      navigateInternal_Exploded [OF that, of "- 1", unfolded j(2)] by blast
  have asm: "navigateLeftRight right s = s \<and> navigateLeftRight left s = s"
    if "state s = Assembled"
    using that by (simp add: nr nl navigateInternal_Assembled)
  have ud: "navigate down s = navigateLeftRight right s" "navigate up s = navigateLeftRight left s"
    by (simp_all add: navigate_def navigateLeftRight_def)
  show ?thesis
    using idx pv ex asm ud by blast
qed

theorem cycling_witness:
  "state (run [AdjustExplosion 1, SetHoveredPartId (Some Leftarm), SelectHoveredPart]
            createSimpleStateMachine) = PartView
   \<and> selectedMajorPart (run [AdjustExplosion 1, SetHoveredPartId (Some Leftarm), SelectHoveredPart]
            createSimpleStateMachine) = Some Leftarm
   \<and> selectedMajorPart (navigateLeftRight right
         (run [AdjustExplosion 1, SetHoveredPartId (Some Leftarm), SelectHoveredPart]
            createSimpleStateMachine)) = Some Rightarm
   \<and> selectedMajorPart ((navigateLeftRight right ^^ 7)
         (run [AdjustExplosion 1, SetHoveredPartId (Some Leftarm), SelectHoveredPart]
            createSimpleStateMachine)) = Some Leftarm
   \<and> state (run [AdjustExplosion 1] createSimpleStateMachine) = Exploded
   \<and> hoveredPart (navigateLeftRight left (run [AdjustExplosion 1] createSimpleStateMachine))
        = Some Rightleg
   \<and> state (navigateLeftRight left (run [AdjustExplosion 1] createSimpleStateMachine))
        = Exploded
   \<and> navigate down createSimpleStateMachine = createSimpleStateMachine"
proof -
  let ?pv = "run [AdjustExplosion 1, SetHoveredPartId (Some Leftarm), SelectHoveredPart]
               createSimpleStateMachine"
  let ?ex = "run [AdjustExplosion 1] createSimpleStateMachine"
  have re: "reachable ?pv" "reachable ?ex" "reachable createSimpleStateMachine"
    by (intro reachable_run reachable.start)+
  have pv: "state ?pv = PartView" "selectedMajorPart ?pv = Some Leftarm" "currentPartIndex ?pv = 3"
    by (simp_all add: run_def createSimpleStateMachine_def adjustExplosion_frame
        setHoveredPartId_def selectHoveredPart_def Let_def transitionTo_frame
        applyPartViewLayout_frame majorParts_def indexOf_def)
  have ex: "state ?ex = Exploded" "currentPartIndex ?ex = 0"
    by (simp_all add: run_def createSimpleStateMachine_def adjustExplosion_frame)
  have st: "state createSimpleStateMachine = Assembled"
    by (simp add: createSimpleStateMachine_def)
  have e4: "elemAt majorParts ((3 + 1) mod 7) = Some Rightarm"
    by (simp add: elemAt_def majorParts_def)
  from cycling [OF re(1)] pv(1)
  have a: "selectedMajorPart (navigateLeftRight right ?pv)
             = elemAt majorParts ((currentPartIndex ?pv + 1) mod 7)"
    and b: "selectedMajorPart ((navigateLeftRight right ^^ 7) ?pv) = selectedMajorPart ?pv"
    by blast+
  from cycling [OF re(2)] ex(1)
  have c: "navigateLeftRight left ?ex
             = ?ex\<lparr>currentPartIndex := (currentPartIndex ?ex - 1) mod 7,
                    hoveredPart := elemAt majorParts ((currentPartIndex ?ex - 1) mod 7)\<rparr>"
    by blast
  from cycling [OF re(3)] st
  have d: "navigate down createSimpleStateMachine = createSimpleStateMachine"
    by simp
  have a': "selectedMajorPart (navigateLeftRight right ?pv) = Some Rightarm"
    using a by (simp only: pv(3) e4)
  have b': "selectedMajorPart ((navigateLeftRight right ^^ 7) ?pv) = Some Leftarm"
    using b by (simp only: pv(2))
  have c': "hoveredPart (navigateLeftRight left ?ex) = Some Rightleg"
    "state (navigateLeftRight left ?ex) = Exploded"
    unfolding c by (simp_all add: ex elemAt_def majorParts_def)
  show ?thesis
    using pv(1) pv(2) a' b' ex(1) c' d by blast
qed

theorem cycling_counterexample:
  "state createSimpleStateMachine = Assembled
   \<and> navigateLeftRight right createSimpleStateMachine = createSimpleStateMachine
   \<and> currentPartIndex (navigateLeftRight right createSimpleStateMachine)
        \<noteq> (currentPartIndex createSimpleStateMachine + 1) mod 7
   \<and> hoveredPart (navigateLeftRight right createSimpleStateMachine) = None"
  by (simp add: navigateLeftRight_def navigateInternal_def createSimpleStateMachine_def)

section \<open>Convergence of the explosion factors\<close>

lemma smoothValue_fixed: "smoothValue t t k = t"
  by (simp add: smoothValue_def Let_def CHANGE_THRESHOLD_def MAX_CHANGE_PER_FRAME_def)

lemma smoothValue_cases:
  "smoothValue c t SMOOTHING = t \<or>
   (smoothValue c t SMOOTHING = c + max (- 0.05) (min 0.05 ((t - c) * 0.08))
    \<and> 0.001 \<le> \<bar>smoothValue c t SMOOTHING - t\<bar>)"
  by (simp add: smoothValue_def Let_def CHANGE_THRESHOLD_def MAX_CHANGE_PER_FRAME_def
      SMOOTHING_def)

lemma clamped_step_bound_aux:
  fixes c t :: real
  assumes "\<bar>c - t\<bar> \<le> 1"
  shows "\<bar>c + max (- (1 / 20)) (min (1 / 20) ((t - c) * (2 / 25))) - t\<bar> \<le> 19 / 20 * \<bar>c - t\<bar>"
  using assms by argo

lemma clamped_step_bound:
  fixes c t :: real
  assumes "\<bar>c - t\<bar> \<le> 1"
  shows "\<bar>c + max (- 0.05) (min 0.05 ((t - c) * 0.08)) - t\<bar> \<le> 0.95 * \<bar>c - t\<bar>"
  using clamped_step_bound_aux [OF assms] by simp

lemma clamped_step_between_aux:
  fixes c t :: real
  assumes "0 \<le> c" "c \<le> 1" "0 \<le> t" "t \<le> 1"
  shows "0 \<le> c + max (- (1 / 20)) (min (1 / 20) ((t - c) * (2 / 25)))
       \<and> c + max (- (1 / 20)) (min (1 / 20) ((t - c) * (2 / 25))) \<le> 1"
  using assms by argo

lemma clamped_step_between:
  fixes c t :: real
  assumes "inUnit c" "inUnit t"
  shows "inUnit (c + max (- 0.05) (min 0.05 ((t - c) * 0.08)))"
  using clamped_step_between_aux [of c t] assms by (simp add: inUnit_def)

lemma smoothValue_inUnit: "inUnit c \<Longrightarrow> inUnit t \<Longrightarrow> inUnit (smoothValue c t SMOOTHING)"
  using smoothValue_cases [of c t] clamped_step_between [of c t] by auto

lemma smoothValue_step:
  assumes "\<bar>c - t\<bar> \<le> 1"
  shows "smoothValue c t SMOOTHING = t \<or>
         (0.001 \<le> \<bar>smoothValue c t SMOOTHING - t\<bar>
          \<and> \<bar>smoothValue c t SMOOTHING - t\<bar> \<le> 0.95 * \<bar>c - t\<bar>)"
  using smoothValue_cases [of c t] clamped_step_bound [OF assms] by auto

lemma smoothValue_iter:
  assumes "\<bar>c - t\<bar> \<le> 1"
  shows "((\<lambda>x. smoothValue x t SMOOTHING) ^^ Suc n) c = t \<or>
         (0.001 \<le> \<bar>((\<lambda>x. smoothValue x t SMOOTHING) ^^ Suc n) c - t\<bar>
          \<and> \<bar>((\<lambda>x. smoothValue x t SMOOTHING) ^^ Suc n) c - t\<bar> \<le> 0.95 ^ Suc n * \<bar>c - t\<bar>)"
proof (induction n)
  case 0
  show ?case using smoothValue_step [OF assms] by simp
next
  case (Suc n)
  let ?x = "((\<lambda>x. smoothValue x t SMOOTHING) ^^ Suc n) c"
  show ?case
  proof (cases "?x = t")
    case True
    then have "((\<lambda>x. smoothValue x t SMOOTHING) ^^ Suc (Suc n)) c = t"
      using smoothValue_fixed [of t SMOOTHING] by simp
    then show ?thesis by blast
  next
    case False
    with Suc have b: "\<bar>?x - t\<bar> \<le> 0.95 ^ Suc n * \<bar>c - t\<bar>" by blast
    have "(0.95::real) ^ Suc n \<le> 1" by (intro power_le_one) simp_all
    then have "0.95 ^ Suc n * \<bar>c - t\<bar> \<le> 1 * 1"
      using assms by (intro mult_mono) simp_all
    with b have le1: "\<bar>?x - t\<bar> \<le> 1" by simp
    have e: "((\<lambda>x. smoothValue x t SMOOTHING) ^^ Suc (Suc n)) c = smoothValue ?x t SMOOTHING"
      by simp
    from smoothValue_step [OF le1]
    show ?thesis
    proof
      assume "smoothValue ?x t SMOOTHING = t"
      then show ?thesis by (simp only: e) simp
    next
      assume a: "0.001 \<le> \<bar>smoothValue ?x t SMOOTHING - t\<bar>
          \<and> \<bar>smoothValue ?x t SMOOTHING - t\<bar> \<le> 0.95 * \<bar>?x - t\<bar>"
      have "0.95 * \<bar>?x - t\<bar> \<le> 0.95 * (0.95 ^ Suc n * \<bar>c - t\<bar>)"
        using b by (intro mult_left_mono) simp_all
      also have "\<dots> = 0.95 ^ Suc (Suc n) * \<bar>c - t\<bar>" by simp
      finally have "\<bar>smoothValue ?x t SMOOTHING - t\<bar> \<le> 0.95 ^ Suc (Suc n) * \<bar>c - t\<bar>"
        using a by linarith
      with a show ?thesis by (simp only: e) simp
    qed
  qed
qed

lemma smoothValue_converges:
  assumes "\<bar>c - t\<bar> \<le> 1" "135 \<le> n"
  shows "((\<lambda>x. smoothValue x t SMOOTHING) ^^ n) c = t"
proof -
  from assms(2) obtain k where n: "n = Suc k" by (cases n) simp_all
  have p: "(0.95::real) ^ n \<le> 0.95 ^ 135"
    using assms(2) by (intro power_decreasing) simp_all
  have q: "(0.95::real) ^ 135 < 0.001" by (simp add: power_divide)
  have "0.95 ^ n * \<bar>c - t\<bar> \<le> 0.95 ^ n * 1"
    using assms(1) by (intro mult_left_mono) simp_all
  then have "0.95 ^ n * \<bar>c - t\<bar> \<le> 0.95 ^ n"
    by (simp only: mult_1_right)
  with p q have small: "0.95 ^ n * \<bar>c - t\<bar> < 0.001" by linarith
  from smoothValue_iter [OF assms(1), of k]
  have "((\<lambda>x. smoothValue x t SMOOTHING) ^^ n) c = t \<or>
         (0.001 \<le> \<bar>((\<lambda>x. smoothValue x t SMOOTHING) ^^ n) c - t\<bar>
          \<and> \<bar>((\<lambda>x. smoothValue x t SMOOTHING) ^^ n) c - t\<bar> \<le> 0.95 ^ n * \<bar>c - t\<bar>)"
    unfolding n .
  then show ?thesis
  proof
    assume "((\<lambda>x. smoothValue x t SMOOTHING) ^^ n) c = t"
    then show ?thesis .
  next
    assume "0.001 \<le> \<bar>((\<lambda>x. smoothValue x t SMOOTHING) ^^ n) c - t\<bar>
          \<and> \<bar>((\<lambda>x. smoothValue x t SMOOTHING) ^^ n) c - t\<bar> \<le> 0.95 ^ n * \<bar>c - t\<bar>"
    with small have False by linarith
    then show ?thesis ..
  qed
qed

lemma smoothStep_eq_iff: "(smoothStep t c = t) = (c = t)"
  by (simp add: smoothStep_def) argo

lemma funpow_smoothStep_eq_iff: "((smoothStep t ^^ n) c = t) = (c = t)"
  by (induction n) (simp_all add: smoothStep_eq_iff)


lemma updatePartPositions_frame:
  "hasModel (updatePartPositions c) = hasModel c \<and>
   globalFactorCurrent (updatePartPositions c) = globalFactorCurrent c \<and>
   globalFactorTarget (updatePartPositions c) = globalFactorTarget c \<and>
   partFactorCurrent (updatePartPositions c) = partFactorCurrent c \<and>
   partFactorTarget (updatePartPositions c) = partFactorTarget c \<and>
   partDataCache (updatePartPositions c) = partDataCache c"
  by (simp add: updatePartPositions_def)

lemma updateExplode_frame:
  "hasModel (updateExplode c) = hasModel c \<and>
   globalFactorTarget (updateExplode c) = globalFactorTarget c \<and>
   partFactorTarget (updateExplode c) = partFactorTarget c \<and>
   partDataCache (updateExplode c) = partDataCache c \<and>
   globalFactorCurrent (updateExplode c)
     = (if hasModel c then smoothValue (globalFactorCurrent c) (globalFactorTarget c) SMOOTHING
        else globalFactorCurrent c) \<and>
   partFactorCurrent (updateExplode c)
     = (if hasModel c then smoothValue (partFactorCurrent c) (partFactorTarget c) SMOOTHING
        else partFactorCurrent c)"
  by (simp add: updateExplode_def Let_def updatePartPositions_frame)

lemma funpow_updateExplode_frame:
  "hasModel ((updateExplode ^^ n) c) = hasModel c \<and>
   globalFactorTarget ((updateExplode ^^ n) c) = globalFactorTarget c \<and>
   partFactorTarget ((updateExplode ^^ n) c) = partFactorTarget c"
  by (induction n) (simp_all add: updateExplode_frame)

lemma funpow_updateExplode_current:
  "hasModel c \<Longrightarrow>
   globalFactorCurrent ((updateExplode ^^ n) c)
     = ((\<lambda>x. smoothValue x (globalFactorTarget c) SMOOTHING) ^^ n) (globalFactorCurrent c) \<and>
   partFactorCurrent ((updateExplode ^^ n) c)
     = ((\<lambda>x. smoothValue x (partFactorTarget c) SMOOTHING) ^^ n) (partFactorCurrent c)"
  by (induction n) (simp_all add: updateExplode_frame funpow_updateExplode_frame)

lemma reachableExplode_clamped: "reachableExplode c \<Longrightarrow> explodeFactorsClamped c"
proof (induction rule: reachableExplode.induct)
  case startExplode
  show ?case
    by (simp add: explodeFactorsClamped_def createExplodeController_def inUnit_def)
next
  case (stepExplode c operation)
  have i: "inUnit (max 0 (min 1 v))" for v :: real
    by (simp add: inUnit_def)
  from stepExplode show ?case
    by (cases operation)
      (simp_all add: explodeFactorsClamped_def setModel_def initPartData_def
        setGlobalExplosionTarget_def setPartExplosionTarget_def updateExplode_frame
        smoothValue_inUnit i)
qed

lemma inUnit_distance: "inUnit a \<Longrightarrow> inUnit b \<Longrightarrow> \<bar>a - b\<bar> \<le> 1"
  by (auto simp: inUnit_def)

text \<open>
  Claim C1 (amended). \<open>ExplodeController\<close>: in every state reached by setting targets and
  ticking, with a model set, 135 or more further ticks make each current factor exactly equal
  to its target. \<open>SimpleStateMachine\<close>: in every reachable state with a model loaded, 66 or
  more frame updates bring each current factor within 0.001 of its target; \<open>update\<close> has no
  snap, so a current factor is exactly equal to its target after some updates only if it
  was equal before them.
\<close>

theorem factor_convergence:
  "(reachableExplode c \<and> hasModel c \<and> 135 \<le> n \<longrightarrow>
      globalFactorCurrent ((updateExplode ^^ n) c) = globalFactorTarget c
      \<and> partFactorCurrent ((updateExplode ^^ n) c) = partFactorTarget c
      \<and> globalFactorTarget ((updateExplode ^^ n) c) = globalFactorTarget c)
   \<and> (reachable s \<and> model s \<noteq> None \<and> 66 \<le> k \<longrightarrow>
      \<bar>globalExplosion ((update ^^ k) s) - globalExplosionTarget s\<bar> \<le> 0.001
      \<and> \<bar>partExplosion ((update ^^ k) s) - partExplosionTarget s\<bar> \<le> 0.001)
   \<and> (model s \<noteq> None \<longrightarrow>
      (globalExplosion ((update ^^ k) s) = globalExplosionTarget s)
        = (globalExplosion s = globalExplosionTarget s)
      \<and> (partExplosion ((update ^^ k) s) = partExplosionTarget s)
        = (partExplosion s = partExplosionTarget s))"
proof -
  have ec: "globalFactorCurrent ((updateExplode ^^ n) c) = globalFactorTarget c
      \<and> partFactorCurrent ((updateExplode ^^ n) c) = partFactorTarget c
      \<and> globalFactorTarget ((updateExplode ^^ n) c) = globalFactorTarget c"
    if h: "reachableExplode c" "hasModel c" "135 \<le> n"
  proof -
    from reachableExplode_clamped [OF h(1)]
    have d: "\<bar>globalFactorCurrent c - globalFactorTarget c\<bar> \<le> 1"
      "\<bar>partFactorCurrent c - partFactorTarget c\<bar> \<le> 1"
      by (simp_all add: explodeFactorsClamped_def inUnit_distance)
    show ?thesis
      using funpow_updateExplode_current [OF h(2), of n] smoothValue_converges [OF d(1) h(3)]
        smoothValue_converges [OF d(2) h(3)] funpow_updateExplode_frame [of n c]
      by simp
  qed
  have sm: "\<bar>globalExplosion ((update ^^ k) s) - globalExplosionTarget s\<bar> \<le> 0.001
      \<and> \<bar>partExplosion ((update ^^ k) s) - partExplosionTarget s\<bar> \<le> 0.001"
    if h: "reachable s" "model s \<noteq> None" "66 \<le> k"
  proof -
    from reachable_invariants [OF h(1)]
    have d: "\<bar>globalExplosion s - globalExplosionTarget s\<bar> \<le> 1"
      "\<bar>partExplosion s - partExplosionTarget s\<bar> \<le> 1"
      by (simp_all add: factorsClamped_def inUnit_distance)
    have p: "(0.9::real) ^ 66 * 1 \<le> 0.001" by (simp add: power_divide)
    show ?thesis
      using smoothStep_close [OF d(1) p h(3)] smoothStep_close [OF d(2) p h(3)]
      by (simp only: funpow_update_globalExplosion [OF h(2)]
          funpow_update_partExplosion [OF h(2)])
  qed
  have ns: "(globalExplosion ((update ^^ k) s) = globalExplosionTarget s)
        = (globalExplosion s = globalExplosionTarget s)
      \<and> (partExplosion ((update ^^ k) s) = partExplosionTarget s)
        = (partExplosion s = partExplosionTarget s)"
    if h: "model s \<noteq> None"
    by (simp only: funpow_update_globalExplosion [OF h] funpow_update_partExplosion [OF h]
        funpow_smoothStep_eq_iff)
  show ?thesis
    using ec sm ns by blast
qed

theorem factor_convergence_witness:
  "globalFactorCurrent ((updateExplode ^^ 135)
       (performExplode (SetGlobalExplosionTarget 0.8)
          (performExplode (SetModel []) createExplodeController))) = 0.8
   \<and> \<bar>globalExplosion ((update ^^ 66)
         (run [Init \<lparr>parts = (\<lambda>_. None)\<rparr>, AdjustExplosion 1] createSimpleStateMachine)) - 1\<bar>
       \<le> 0.001
   \<and> globalExplosion ((update ^^ 66)
         (run [Init \<lparr>parts = (\<lambda>_. None)\<rparr>, AdjustExplosion 1] createSimpleStateMachine)) \<noteq> 1"
proof -
  let ?c = "performExplode (SetGlobalExplosionTarget 0.8)
              (performExplode (SetModel []) createExplodeController)"
  let ?s = "run [Init \<lparr>parts = (\<lambda>_. None)\<rparr>, AdjustExplosion 1] createSimpleStateMachine"
  have rc: "reachableExplode ?c"
    by (intro reachableExplode.intros)
  have c: "hasModel ?c" "globalFactorTarget ?c = 0.8"
    by (simp_all add: setModel_def initPartData_def setGlobalExplosionTarget_def
        createExplodeController_def)
  have rs: "reachable ?s"
    by (intro reachable_run reachable.start)
  have s: "model ?s \<noteq> None" "globalExplosionTarget ?s = 1" "globalExplosion ?s = 0"
    by (simp_all add: run_def init_def adjustExplosion_frame createSimpleStateMachine_def)
  note t = factor_convergence [of ?c 135 ?s 66]
  from t rc c(1) have "globalFactorCurrent ((updateExplode ^^ 135) ?c) = globalFactorTarget ?c"
    by simp
  then have a: "globalFactorCurrent ((updateExplode ^^ 135) ?c) = 0.8"
    by (simp only: c(2))
  from t rs s(1) have "\<bar>globalExplosion ((update ^^ 66) ?s) - globalExplosionTarget ?s\<bar> \<le> 0.001"
    by simp
  then have b: "\<bar>globalExplosion ((update ^^ 66) ?s) - 1\<bar> \<le> 0.001"
    by (simp only: s(2))
  from t s(1) have "(globalExplosion ((update ^^ 66) ?s) = globalExplosionTarget ?s)
        = (globalExplosion ?s = globalExplosionTarget ?s)"
    by blast
  then have d: "globalExplosion ((update ^^ 66) ?s) \<noteq> 1"
    by (simp only: s(2) s(3))
  show ?thesis
    using a b d by blast
qed

theorem factor_convergence_counterexample:
  "\<not> (\<exists>n. globalExplosion ((update ^^ n)
            (adjustExplosion 0.2 (init \<lparr>parts = (\<lambda>_. None)\<rparr> createSimpleStateMachine)))
          = globalExplosionTarget ((update ^^ n)
            (adjustExplosion 0.2 (init \<lparr>parts = (\<lambda>_. None)\<rparr> createSimpleStateMachine))))"
proof -
  let ?s = "adjustExplosion 0.2 (init \<lparr>parts = (\<lambda>_. None)\<rparr> createSimpleStateMachine)"
  have s: "model ?s \<noteq> None" "globalExplosionTarget ?s = 0.2" "globalExplosion ?s = 0"
    by (simp_all add: init_def adjustExplosion_frame createSimpleStateMachine_def)
  have "globalExplosion ((update ^^ n) ?s) \<noteq> globalExplosionTarget ((update ^^ n) ?s)" for n
  proof -
    have "((smoothStep 0.2 ^^ n) 0 = 0.2) = ((0::real) = 0.2)"
      by (rule funpow_smoothStep_eq_iff)
    moreover have "(0::real) \<noteq> 0.2" by simp
    ultimately have ne: "(smoothStep 0.2 ^^ n) 0 \<noteq> 0.2" by blast
    have e: "globalExplosion ((update ^^ n) ?s) = (smoothStep 0.2 ^^ n) 0"
      using funpow_update_globalExplosion [OF s(1), of n] unfolding s(2) s(3) .
    have f: "globalExplosionTarget ((update ^^ n) ?s) = 0.2"
      by (simp only: funpow_update_frame s(2))
    show ?thesis
      unfolding e f by (fact ne)
  qed
  then show ?thesis by blast
qed

section \<open>Part transforms\<close>

lemma updatePart_name: "name (updatePart cache f p) = name p"
  by (simp add: updatePart_def Let_def split: option.splits)

lemma updatePart_idem: "updatePart cache f (updatePart cache f p) = updatePart cache f p"
  by (cases "cache (name p)") (simp_all add: updatePart_def Let_def)

lemma updatePart_pose:
  "cache (name p) = Some data \<Longrightarrow>
   position (mesh (updatePart cache f p))
     = vadd (basePosition data) (multiplyScalar (explodeDirection data) (explodeDistance data * f * 2))
   \<and> rotation (mesh (updatePart cache f p))
     = (if f > 0.01
        then vadd (baseRotation data) (multiplyScalar (explodeDirection data) (f * ROTATION_AMOUNT))
        else baseRotation data)"
  by (simp add: updatePart_def Let_def GLOBAL_SCALE_def vadd_def multiplyScalar_def vec_sel)

lemma updatePartPositions_parts:
  "partsArray (updatePartPositions c)
     = map (updatePart (partDataCache c) (globalFactorCurrent c)) (partsArray c)"
  by (simp add: updatePartPositions_def)

lemma updatePartPositions_idem: "updatePartPositions (updatePartPositions c) = updatePartPositions c"
  by (simp add: updatePartPositions_def updatePart_idem)

lemma applyNormalExplosion_node:
  assumes "model s = Some m" "p \<in> set majorParts" "parts m p = Some config"
    "node config = Some nd" "originalPosition config = Some orig"
  shows "partNode (applyNormalExplosion s) p
           = Some (nd\<lparr>position :=
                vadd orig (multiplyScalar (normalize (direction (EXPLODE_OFFSETS p)))
                             (distance (EXPLODE_OFFSETS p) * globalExplosion s))\<rparr>)"
  using assms
  by (simp add: partNode_def applyNormalExplosion_def fold_explodeNode_parts
      distinct_majorParts explodeConfig_def Let_def)

text \<open>
  Claim C10 (amended). \<open>ExplodeController.updatePartPositions\<close> gives every part with cached
  data the position \<open>basePosition + explodeDirection * (explodeDistance * factor * 2)\<close> and
  the rotation \<open>baseRotation + explodeDirection * (factor * ROTATION_AMOUNT)\<close> when the factor
  is above 0.01, else \<open>baseRotation\<close>, where the factor is the current global factor; the
  result does not depend on the pose the mesh had, running it again changes nothing, and
  ticks never change the cached base pose. \<open>SimpleStateMachine.applyNormalExplosion\<close> gives
  every major part bound to a node the position
  \<open>originalPosition + normalize(direction) * (distance * globalExplosion)\<close>, without the
  factor 2, and leaves rotation and scale as they are.
\<close>

theorem part_transform:
  "(i < length (partsArray c) \<and> partDataCache c (name (partsArray c ! i)) = Some data \<longrightarrow>
      position (mesh (partsArray (updatePartPositions c) ! i))
        = vadd (basePosition data)
            (multiplyScalar (explodeDirection data)
               (explodeDistance data * globalFactorCurrent c * 2))
      \<and> rotation (mesh (partsArray (updatePartPositions c) ! i))
        = (if globalFactorCurrent c > 0.01
           then vadd (baseRotation data)
                  (multiplyScalar (explodeDirection data) (globalFactorCurrent c * ROTATION_AMOUNT))
           else baseRotation data))
   \<and> updatePartPositions (updatePartPositions c) = updatePartPositions c
   \<and> partDataCache ((updateExplode ^^ n) c) = partDataCache c
   \<and> (model s = Some m \<and> p \<in> set majorParts \<and> parts m p = Some config
        \<and> node config = Some nd \<and> originalPosition config = Some orig \<longrightarrow>
      partNode (applyNormalExplosion s) p
        = Some (nd\<lparr>position :=
             vadd orig (multiplyScalar (normalize (direction (EXPLODE_OFFSETS p)))
                          (distance (EXPLODE_OFFSETS p) * globalExplosion s))\<rparr>))"
proof -
  have ec: "position (mesh (partsArray (updatePartPositions c) ! i))
        = vadd (basePosition data)
            (multiplyScalar (explodeDirection data)
               (explodeDistance data * globalFactorCurrent c * 2))
      \<and> rotation (mesh (partsArray (updatePartPositions c) ! i))
        = (if globalFactorCurrent c > 0.01
           then vadd (baseRotation data)
                  (multiplyScalar (explodeDirection data) (globalFactorCurrent c * ROTATION_AMOUNT))
           else baseRotation data)"
    if h: "i < length (partsArray c)" "partDataCache c (name (partsArray c ! i)) = Some data"
    using updatePart_pose [where cache = "partDataCache c" and p = "partsArray c ! i"
        and data = data and f = "globalFactorCurrent c", OF h(2)] h(1)
    by (simp only: updatePartPositions_parts nth_map)
  have cache: "partDataCache ((updateExplode ^^ n) c) = partDataCache c"
    by (induction n) (simp_all add: updateExplode_frame)
  show ?thesis
    using ec updatePartPositions_idem [of c] cache applyNormalExplosion_node [of s m p config nd orig]
    by blast
qed

lemma normalize_Head_up: "0 < vy (normalize (direction (EXPLODE_OFFSETS Head)))"
proof -
  have "vlength (vec 0 0.8 0.4) = sqrt 0.8"
    by (simp add: vlength_def vec_sel)
  moreover have "0 < sqrt (0.8::real)" by simp
  ultimately show ?thesis
    by (simp add: normalize_def Let_def vec_sel)
qed

theorem part_transform_witness:
  "position (mesh (partsArray (updatePartPositions
       \<lparr>hasModel = True,
        partsArray = [\<lparr>name = Head,
                       mesh = \<lparr>position = vec 7 7 7, rotation = vec 0 0 0, scale = vec 1 1 1\<rparr>,
                       partExplodeDirection = vec 0 1 0, partExplodeDistance = 0.5\<rparr>],
        globalFactorCurrent = 1, globalFactorTarget = 1,
        partFactorCurrent = 0, partFactorTarget = 0,
        partDataCache = (\<lambda>_. None)(Head \<mapsto>
          \<lparr>basePosition = vec 0 0 0, baseRotation = vec 0 0 0, baseScale = vec 1 1 1,
           explodeDirection = vec 0 1 0, explodeDistance = 0.5\<rparr>)\<rparr>) ! 0))
     = vec 0 1 0
   \<and> partNode (applyNormalExplosion
        (createSimpleStateMachine
           \<lparr>model := Some \<lparr>parts = (\<lambda>_. None)(Head \<mapsto>
              \<lparr>node = Some \<lparr>position = vec 7 7 7, rotation = vec 0 0 0, scale = vec 1 1 1\<rparr>,
               originalPosition = Some (vec 0 0 0)\<rparr>)\<rparr>,
            globalExplosion := 0\<rparr>)) Head
     = Some \<lparr>position = vec 0 0 0, rotation = vec 0 0 0, scale = vec 1 1 1\<rparr>"
proof -
  let ?data = "\<lparr>basePosition = vec 0 0 0, baseRotation = vec 0 0 0, baseScale = vec 1 1 1,
           explodeDirection = vec 0 1 0, explodeDistance = 0.5\<rparr>"
  let ?c = "\<lparr>hasModel = True,
        partsArray = [\<lparr>name = Head,
                       mesh = \<lparr>position = vec 7 7 7, rotation = vec 0 0 0, scale = vec 1 1 1\<rparr>,
                       partExplodeDirection = vec 0 1 0, partExplodeDistance = 0.5\<rparr>],
        globalFactorCurrent = 1, globalFactorTarget = 1,
        partFactorCurrent = 0, partFactorTarget = 0,
        partDataCache = (\<lambda>_. None)(Head \<mapsto> ?data)\<rparr>"
  let ?nd = "\<lparr>position = vec 7 7 7, rotation = vec 0 0 0, scale = vec 1 1 1\<rparr>"
  let ?config = "\<lparr>node = Some ?nd, originalPosition = Some (vec 0 0 0)\<rparr>"
  let ?m = "\<lparr>parts = (\<lambda>_. None)(Head \<mapsto> ?config)\<rparr>"
  let ?s = "createSimpleStateMachine\<lparr>model := Some ?m, globalExplosion := 0\<rparr>"
  note t = part_transform [of 0 ?c ?data 0 ?s ?m Head ?config ?nd "vec 0 0 0"]
  have h1: "0 < length (partsArray ?c) \<and> partDataCache ?c (name (partsArray ?c ! 0)) = Some ?data"
    by simp
  have h2: "model ?s = Some ?m \<and> Head \<in> set majorParts \<and> parts ?m Head = Some ?config
        \<and> node ?config = Some ?nd \<and> originalPosition ?config = Some (vec 0 0 0)"
    by (simp add: majorParts_def)
  from t h1 have "position (mesh (partsArray (updatePartPositions ?c) ! 0))
        = vadd (basePosition ?data)
            (multiplyScalar (explodeDirection ?data)
               (explodeDistance ?data * globalFactorCurrent ?c * 2))"
    by blast
  then have a: "position (mesh (partsArray (updatePartPositions ?c) ! 0)) = vec 0 1 0"
    by (simp add: vadd_def multiplyScalar_def vec_sel)
  from t h2 have "partNode (applyNormalExplosion ?s) Head
        = Some (?nd\<lparr>position :=
             vadd (vec 0 0 0) (multiplyScalar (normalize (direction (EXPLODE_OFFSETS Head)))
                          (distance (EXPLODE_OFFSETS Head) * globalExplosion ?s))\<rparr>)"
    by blast
  then have b: "partNode (applyNormalExplosion ?s) Head
     = Some \<lparr>position = vec 0 0 0, rotation = vec 0 0 0, scale = vec 1 1 1\<rparr>"
    by (simp add: vadd_def multiplyScalar_def vec_sel)
  show ?thesis
    using a b by blast
qed

theorem part_transform_counterexample:
  "map_option position (partNode (applyNormalExplosion
        (createSimpleStateMachine
           \<lparr>model := Some \<lparr>parts = (\<lambda>_. None)(Head \<mapsto>
              \<lparr>node = Some \<lparr>position = vec 0 0 0, rotation = vec 0 0 0, scale = vec 1 1 1\<rparr>,
               originalPosition = Some (vec 0 0 0)\<rparr>)\<rparr>,
            globalExplosion := 1\<rparr>)) Head)
     \<noteq> Some (vadd (vec 0 0 0)
               (multiplyScalar (normalize (direction (EXPLODE_OFFSETS Head)))
                  (distance (EXPLODE_OFFSETS Head) * 1 * 2)))"
proof -
  let ?nd = "\<lparr>position = vec 0 0 0, rotation = vec 0 0 0, scale = vec 1 1 1\<rparr>"
  let ?config = "\<lparr>node = Some ?nd, originalPosition = Some (vec 0 0 0)\<rparr>"
  let ?m = "\<lparr>parts = (\<lambda>_. None)(Head \<mapsto> ?config)\<rparr>"
  let ?s = "createSimpleStateMachine\<lparr>model := Some ?m, globalExplosion := 1\<rparr>"
  let ?d = "normalize (direction (EXPLODE_OFFSETS Head))"
  have "partNode (applyNormalExplosion ?s) Head
        = Some (?nd\<lparr>position :=
             vadd (vec 0 0 0) (multiplyScalar ?d (distance (EXPLODE_OFFSETS Head) * globalExplosion ?s))\<rparr>)"
    by (rule applyNormalExplosion_node [where m = ?m and config = ?config])
      (simp_all add: majorParts_def)
  then have e: "map_option position (partNode (applyNormalExplosion ?s) Head)
        = Some (vadd (vec 0 0 0) (multiplyScalar ?d (distance (EXPLODE_OFFSETS Head) * 1)))"
    by simp
  have "vy (vadd (vec 0 0 0) (multiplyScalar ?d (distance (EXPLODE_OFFSETS Head) * 1)))
          = vy ?d * 0.5"
    by (simp add: vadd_def multiplyScalar_def vec_sel)
  moreover have "vy (vadd (vec 0 0 0) (multiplyScalar ?d (distance (EXPLODE_OFFSETS Head) * 1 * 2)))
          = vy ?d * 1"
    by (simp add: vadd_def multiplyScalar_def vec_sel)
  moreover have "vy ?d * 0.5 \<noteq> vy ?d * 1"
    using normalize_Head_up by simp
  ultimately have "vadd (vec 0 0 0) (multiplyScalar ?d (distance (EXPLODE_OFFSETS Head) * 1))
      \<noteq> vadd (vec 0 0 0) (multiplyScalar ?d (distance (EXPLODE_OFFSETS Head) * 1 * 2))"
    by metis
  then show ?thesis
    unfolding e by simp
qed

section \<open>Selecting the same part again\<close>

lemma setSelectedPart_same:
  "selectedPart c = Some p \<Longrightarrow> setSelectedPart (Some p) c = drillDown c"
  by (simp add: setSelectedPart_def)

lemma setSelectedPart_new:
  "selectedPart c \<noteq> Some p \<Longrightarrow>
   setSelectedPart (Some p) c
     = c\<lparr>selectedPart := Some p, focusMode := part, focusRoot := Some (partMesh c p)\<rparr>"
  by (simp add: setSelectedPart_def setFocusMode_def Let_def)

lemma calculateTransitionTargets_layout_eq:
  "transitionTargets (calculateTransitionTargets (Some p) a)
     = transitionTargets (calculateTransitionTargets (Some p) b)
   \<and> transitionScales (calculateTransitionTargets (Some p) a)
     = transitionScales (calculateTransitionTargets (Some p) b)
   \<and> selectedSubRingIndex (calculateTransitionTargets (Some p) a)
     = selectedSubRingIndex (calculateTransitionTargets (Some p) b)"
proof -
  have "transitionTargets (calculateTransitionTargets (Some p) a) q
          = transitionTargets (calculateTransitionTargets (Some p) b) q
        \<and> transitionScales (calculateTransitionTargets (Some p) a) q
          = transitionScales (calculateTransitionTargets (Some p) b) q" for q
  proof (cases "q = p")
    case True
    then show ?thesis by (simp add: layout_primary)
  next
    case False
    then have n: "Some q \<noteq> Some p" by simp
    show ?thesis
    proof (cases "q \<in> set majorParts")
      case True
      then show ?thesis using n by (simp add: layout_secondary)
    next
      case False
      then show ?thesis using n by (simp add: layout_untracked)
    qed
  qed
  then have "transitionTargets (calculateTransitionTargets (Some p) a)
     = transitionTargets (calculateTransitionTargets (Some p) b)"
    "transitionScales (calculateTransitionTargets (Some p) a)
     = transitionScales (calculateTransitionTargets (Some p) b)"
    by (simp_all add: fun_eq_iff)
  moreover have "selectedSubRingIndex (calculateTransitionTargets (Some p) a)
     = selectedSubRingIndex (calculateTransitionTargets (Some p) b)"
    by (simp add: calculateTransitionTargets_def Let_def fold_assignSubRing_frame
        updateSubRingVisibility_def)
  ultimately show ?thesis by blast
qed

lemma applyPartViewLayout_idem:
  "applyPartViewLayout (applyPartViewLayout s) = applyPartViewLayout s"
proof (cases "model s = None \<or> selectedMajorPart s = None")
  case True
  then show ?thesis by (auto simp: applyPartViewLayout_def)
next
  case False
  then obtain m p where mp: "model s = Some m" "selectedMajorPart s = Some p" by auto
  let ?c = "calculateTransitionTargets (Some p) s"
  have a: "applyPartViewLayout s = ?c\<lparr>isTransitioning := True\<rparr>"
    using mp by (simp add: applyPartViewLayout_def)
  have b: "applyPartViewLayout (?c\<lparr>isTransitioning := True\<rparr>)
             = (calculateTransitionTargets (Some p) (?c\<lparr>isTransitioning := True\<rparr>))
                 \<lparr>isTransitioning := True\<rparr>"
    using mp by (simp add: applyPartViewLayout_def calculateTransitionTargets_frame)
  have "(calculateTransitionTargets (Some p) (?c\<lparr>isTransitioning := True\<rparr>))\<lparr>isTransitioning := True\<rparr>
          = ?c\<lparr>isTransitioning := True\<rparr>"
    using calculateTransitionTargets_layout_eq [of p "?c\<lparr>isTransitioning := True\<rparr>" s]
    by (intro SimpleStateMachine.equality) (simp_all add: calculateTransitionTargets_frame)
  then show ?thesis by (simp only: a b)
qed

lemma selectHoveredPart_again:
  assumes "hoveredPart s = Some p" "p \<in> set majorParts"
    "state s = Exploded \<or> globalExplosion s > 0.1"
  shows "selectHoveredPart (snd (selectHoveredPart s)) = (True, snd (selectHoveredPart s))"
proof -
  define u where "u = s\<lparr>selectedMajorPart := Some p,
               currentPartIndex := indexOf majorParts p,
               partExplosionTarget := 0,
               partExplosion := 0,
               globalExplosion := max (globalExplosion s) 0.5,
               globalExplosionTarget := max (globalExplosionTarget s) 1\<rparr>"
  define s1 where "s1 = applyPartViewLayout (transitionTo PartView u)"
  have r1: "selectHoveredPart s = (True, s1)"
    using assms by (simp add: selectHoveredPart_def Let_def s1_def u_def)
  have f: "hoveredPart s1 = Some p" "state s1 = PartView" "selectedMajorPart s1 = Some p"
    "currentPartIndex s1 = indexOf majorParts p" "partExplosionTarget s1 = 0"
    "partExplosion s1 = 0"
    using assms(1) by (simp_all add: s1_def u_def applyPartViewLayout_frame transitionTo_frame)
  have g: "max (globalExplosion s1) 0.5 = globalExplosion s1" "globalExplosion s1 > 0.1"
    "max (globalExplosionTarget s1) 1 = globalExplosionTarget s1"
    by (simp_all add: s1_def u_def applyPartViewLayout_frame transitionTo_frame)
  define u1 where "u1 = s1\<lparr>selectedMajorPart := Some p,
               currentPartIndex := indexOf majorParts p,
               partExplosionTarget := 0,
               partExplosion := 0,
               globalExplosion := max (globalExplosion s1) 0.5,
               globalExplosionTarget := max (globalExplosionTarget s1) 1\<rparr>"
  have u1: "u1 = s1"
    unfolding u1_def g(1) g(3)
    by (intro SimpleStateMachine.equality) (simp_all add: f)
  have r2: "selectHoveredPart s1 = (True, applyPartViewLayout (transitionTo PartView u1))"
    using f(1) f(2) g(2) assms(2) by (simp add: selectHoveredPart_def Let_def u1_def)
  have t: "transitionTo PartView s1 = s1"
    using f(2) by (simp add: transitionTo_def)
  have "applyPartViewLayout s1 = s1"
    unfolding s1_def by (rule applyPartViewLayout_idem)
  then have "applyPartViewLayout (transitionTo PartView u1) = s1"
    by (simp only: u1 t)
  with r2 have "selectHoveredPart s1 = (True, s1)" by (simp only:)
  then show ?thesis by (simp only: r1 snd_conv)
qed

text \<open>
  Claim C8 (amended). \<open>SelectionController.setSelectedPart\<close>: after a part has been newly
  selected, selecting it again runs \<open>drillDown\<close> and not the selection; focus root and focus
  mode stay as the first selection set them; if the part's node has children the part is
  pushed on the navigation stack and the selected-part field is cleared, and if it has none
  nothing changes. \<open>SimpleStateMachine.selectHoveredPart\<close> has no drill-down: selecting the
  already selected major part again returns true, and immediately after the first selection it
  leaves the whole state as it is, whether or not the part has children.
\<close>

theorem drill_on_reselection:
  "(selectedPart c \<noteq> Some x \<longrightarrow>
      selectedPart (setSelectedPart (Some x) c) = Some x
      \<and> focusRoot (setSelectedPart (Some x) c) = Some (partMesh c x)
      \<and> focusMode (setSelectedPart (Some x) c) = part
      \<and> setSelectedPart (Some x) (setSelectedPart (Some x) c)
           = drillDown (setSelectedPart (Some x) c)
      \<and> focusRoot (setSelectedPart (Some x) (setSelectedPart (Some x) c))
           = focusRoot (setSelectedPart (Some x) c)
      \<and> focusMode (setSelectedPart (Some x) (setSelectedPart (Some x) c))
           = focusMode (setSelectedPart (Some x) c)
      \<and> (childCount c (partMesh c x) > 0 \<longrightarrow>
            setSelectedPart (Some x) (setSelectedPart (Some x) c)
              = (setSelectedPart (Some x) c)
                  \<lparr>navigationStack := navigationStack c @ [x], selectedPart := None\<rparr>)
      \<and> (childCount c (partMesh c x) = 0 \<longrightarrow>
            setSelectedPart (Some x) (setSelectedPart (Some x) c) = setSelectedPart (Some x) c))
   \<and> (hoveredPart s = Some p \<and> p \<in> set majorParts
        \<and> (state s = Exploded \<or> globalExplosion s > 0.1) \<longrightarrow>
      selectedMajorPart (snd (selectHoveredPart s)) = Some p
      \<and> selectHoveredPart (snd (selectHoveredPart s)) = (True, snd (selectHoveredPart s)))"
proof -
  have sc: "selectedPart (setSelectedPart (Some x) c) = Some x
      \<and> focusRoot (setSelectedPart (Some x) c) = Some (partMesh c x)
      \<and> focusMode (setSelectedPart (Some x) c) = part
      \<and> setSelectedPart (Some x) (setSelectedPart (Some x) c)
           = drillDown (setSelectedPart (Some x) c)
      \<and> focusRoot (setSelectedPart (Some x) (setSelectedPart (Some x) c))
           = focusRoot (setSelectedPart (Some x) c)
      \<and> focusMode (setSelectedPart (Some x) (setSelectedPart (Some x) c))
           = focusMode (setSelectedPart (Some x) c)
      \<and> (childCount c (partMesh c x) > 0 \<longrightarrow>
            setSelectedPart (Some x) (setSelectedPart (Some x) c)
              = (setSelectedPart (Some x) c)
                  \<lparr>navigationStack := navigationStack c @ [x], selectedPart := None\<rparr>)
      \<and> (childCount c (partMesh c x) = 0 \<longrightarrow>
            setSelectedPart (Some x) (setSelectedPart (Some x) c) = setSelectedPart (Some x) c)"
    if h: "selectedPart c \<noteq> Some x"
  proof -
    let ?c1 = "c\<lparr>selectedPart := Some x, focusMode := part, focusRoot := Some (partMesh c x)\<rparr>"
    have a: "setSelectedPart (Some x) c = ?c1"
      by (rule setSelectedPart_new [OF h])
    have b: "setSelectedPart (Some x) ?c1 = drillDown ?c1"
      by (rule setSelectedPart_same) simp
    show ?thesis
      unfolding a b by (simp add: drillDown_def Let_def)
  qed
  have sm: "selectedMajorPart (snd (selectHoveredPart s)) = Some p
      \<and> selectHoveredPart (snd (selectHoveredPart s)) = (True, snd (selectHoveredPart s))"
    if h: "hoveredPart s = Some p \<and> p \<in> set majorParts
        \<and> (state s = Exploded \<or> globalExplosion s > 0.1)"
  proof -
    have "selectedMajorPart (snd (selectHoveredPart s)) = Some p"
      using h by (auto simp: selectHoveredPart_def Let_def applyPartViewLayout_frame
          transitionTo_frame)
    then show ?thesis
      using selectHoveredPart_again [of s p] h by blast
  qed
  show ?thesis
    using sc sm by blast
qed

theorem drill_on_reselection_witness:
  "navigationStack (setSelectedPart (Some 3) (setSelectedPart (Some 3)
       \<lparr>partMesh = (\<lambda>r. r + 100), childCount = (\<lambda>obj. if obj = 103 then 3 else 0),
        selectedPart = None, focusMode = global, focusRoot = None, navigationStack = []\<rparr>)) = [3]
   \<and> selectedPart (setSelectedPart (Some 3) (setSelectedPart (Some 3)
       \<lparr>partMesh = (\<lambda>r. r + 100), childCount = (\<lambda>obj. if obj = 103 then 3 else 0),
        selectedPart = None, focusMode = global, focusRoot = None, navigationStack = []\<rparr>)) = None
   \<and> focusRoot (setSelectedPart (Some 3) (setSelectedPart (Some 3)
       \<lparr>partMesh = (\<lambda>r. r + 100), childCount = (\<lambda>obj. if obj = 103 then 3 else 0),
        selectedPart = None, focusMode = global, focusRoot = None, navigationStack = []\<rparr>)) = Some 103
   \<and> setSelectedPart (Some 0) (setSelectedPart (Some 0)
       \<lparr>partMesh = (\<lambda>r. r + 100), childCount = (\<lambda>obj. if obj = 103 then 3 else 0),
        selectedPart = None, focusMode = global, focusRoot = None, navigationStack = []\<rparr>)
     = \<lparr>partMesh = (\<lambda>r. r + 100), childCount = (\<lambda>obj. if obj = 103 then 3 else 0),
        selectedPart = Some 0, focusMode = part, focusRoot = Some 100, navigationStack = []\<rparr>
   \<and> selectedMajorPart (snd (selectHoveredPart
        (run [AdjustExplosion 1, SetHoveredPartId (Some Head)] createSimpleStateMachine)))
     = Some Head
   \<and> snd (selectHoveredPart (snd (selectHoveredPart
        (run [AdjustExplosion 1, SetHoveredPartId (Some Head)] createSimpleStateMachine))))
     = snd (selectHoveredPart
        (run [AdjustExplosion 1, SetHoveredPartId (Some Head)] createSimpleStateMachine))"
proof -
  let ?c = "\<lparr>partMesh = (\<lambda>r. r + 100), childCount = (\<lambda>obj. if obj = 103 then 3 else 0),
        selectedPart = None, focusMode = global, focusRoot = None, navigationStack = []\<rparr>"
  let ?s = "run [AdjustExplosion 1, SetHoveredPartId (Some Head)] createSimpleStateMachine"
  have c: "selectedPart ?c \<noteq> Some 3" "selectedPart ?c \<noteq> Some 0"
    "childCount ?c (partMesh ?c 3) > 0" "childCount ?c (partMesh ?c 0) = 0"
    by simp_all
  have s: "hoveredPart ?s = Some Head \<and> Head \<in> set majorParts
        \<and> (state ?s = Exploded \<or> globalExplosion ?s > 0.1)"
    by (simp add: run_def createSimpleStateMachine_def adjustExplosion_frame
        setHoveredPartId_def majorParts_def)
  note t3 = drill_on_reselection [of ?c 3 ?s Head]
  note t0 = drill_on_reselection [of ?c 0 ?s Head]
  from t3 c(1) c(3) have a: "setSelectedPart (Some 3) (setSelectedPart (Some 3) ?c)
              = (setSelectedPart (Some 3) ?c)
                  \<lparr>navigationStack := navigationStack ?c @ [3], selectedPart := None\<rparr>"
    and a1: "focusRoot (setSelectedPart (Some 3) ?c) = Some (partMesh ?c 3)"
    by blast+
  from t0 c(2) c(4) have b: "setSelectedPart (Some 0) (setSelectedPart (Some 0) ?c)
       = setSelectedPart (Some 0) ?c"
    and b1: "selectedPart (setSelectedPart (Some 0) ?c) = Some 0"
    and b2: "focusRoot (setSelectedPart (Some 0) ?c) = Some (partMesh ?c 0)"
    and b3: "focusMode (setSelectedPart (Some 0) ?c) = part"
    by blast+
  from t3 s have d: "selectedMajorPart (snd (selectHoveredPart ?s)) = Some Head"
    and e: "selectHoveredPart (snd (selectHoveredPart ?s)) = (True, snd (selectHoveredPart ?s))"
    by blast+
  have a': "navigationStack (setSelectedPart (Some 3) (setSelectedPart (Some 3) ?c)) = [3]"
    "selectedPart (setSelectedPart (Some 3) (setSelectedPart (Some 3) ?c)) = None"
    "focusRoot (setSelectedPart (Some 3) (setSelectedPart (Some 3) ?c)) = Some 103"
    unfolding a using a1 by simp_all
  have b': "setSelectedPart (Some 0) (setSelectedPart (Some 0) ?c)
     = \<lparr>partMesh = (\<lambda>r. r + 100), childCount = (\<lambda>obj. if obj = 103 then 3 else 0),
        selectedPart = Some 0, focusMode = part, focusRoot = Some 100, navigationStack = []\<rparr>"
    unfolding b using b1 b2 b3
    by (intro SelectionController.equality) (simp_all add: setSelectedPart_def setFocusMode_def)
  have e': "snd (selectHoveredPart (snd (selectHoveredPart ?s))) = snd (selectHoveredPart ?s)"
    by (simp only: e snd_conv)
  show ?thesis
    using a' b' d e' by blast
qed

theorem drill_on_reselection_counterexample:
  "getChildParts Leftarm = [Leftupperarm, Leftdownarm, Lefthand]
   \<and> selectedMajorPart (snd (selectHoveredPart
        (run [Init \<lparr>parts = (\<lambda>_. None)\<rparr>, AdjustExplosion 1, SetHoveredPartId (Some Leftarm)]
           createSimpleStateMachine))) = Some Leftarm
   \<and> selectHoveredPart (snd (selectHoveredPart
        (run [Init \<lparr>parts = (\<lambda>_. None)\<rparr>, AdjustExplosion 1, SetHoveredPartId (Some Leftarm)]
           createSimpleStateMachine)))
     = (True, snd (selectHoveredPart
        (run [Init \<lparr>parts = (\<lambda>_. None)\<rparr>, AdjustExplosion 1, SetHoveredPartId (Some Leftarm)]
           createSimpleStateMachine)))"
proof -
  let ?s = "run [Init \<lparr>parts = (\<lambda>_. None)\<rparr>, AdjustExplosion 1, SetHoveredPartId (Some Leftarm)]
           createSimpleStateMachine"
  have s: "hoveredPart ?s = Some Leftarm" "Leftarm \<in> set majorParts" "state ?s = Exploded"
    by (simp_all add: run_def init_def createSimpleStateMachine_def adjustExplosion_frame
        setHoveredPartId_def majorParts_def)
  have "selectedMajorPart (snd (selectHoveredPart ?s)) = Some Leftarm"
    using s by (simp add: selectHoveredPart_def Let_def applyPartViewLayout_frame
        transitionTo_frame)
  moreover have "selectHoveredPart (snd (selectHoveredPart ?s)) = (True, snd (selectHoveredPart ?s))"
    by (rule selectHoveredPart_again [OF s(1) s(2) disjI1 [OF s(3)]])
  moreover have "getChildParts Leftarm = [Leftupperarm, Leftdownarm, Lefthand]"
    by (simp add: getChildParts_def)
  ultimately show ?thesis by blast
qed

section \<open>The clamp invariant\<close>









end
